theory Spec2Isabelle
  imports Main "HOL-Library.AList"
begin

section \<open>Configuration: rules, mappings and the resolved rule table\<close>

text \<open>
  \<^verbatim>\<open>internal/config/config.go\<close>. A \<open>Direction\<close> is a Go string type with three
  named constants; a \<open>Rule\<close> and a \<open>Mapping\<close> are structs. Strings are byte
  sequences (\<open>char list\<close>), as Go's \<open>string\<close> is.
\<close>

type_synonym direction = string

definition DirectionQuery :: direction where "DirectionQuery = ''query''"
definition DirectionResult :: direction where "DirectionResult = ''result''"
definition DirectionBoth :: direction where "DirectionBoth = ''both''"

record rule =
  SourceLabel :: string
  TargetLabel :: string

record mapping =
  Direction :: direction
  Rules :: "rule list"

record config =
  TargetPrometheus :: string
  Mappings :: "mapping list"

text \<open>\<open>GetRules\<close>: the loop appends, in mapping order, the rules of every mapping
  whose direction is the requested one or \<open>both\<close>.\<close>

fun GetRules_loop :: "mapping list \<Rightarrow> direction \<Rightarrow> rule list \<Rightarrow> rule list" where
  "GetRules_loop [] d rules = rules"
| "GetRules_loop (m # ms) d rules =
     (if Direction m = d \<or> Direction m = DirectionBoth
      then GetRules_loop ms d (rules @ Rules m)
      else GetRules_loop ms d rules)"

definition GetRules :: "config \<Rightarrow> direction \<Rightarrow> rule list" where
  "GetRules c d = GetRules_loop (Mappings c) d []"

definition GetQueryRules :: "config \<Rightarrow> rule list" where
  "GetQueryRules c = GetRules c DirectionQuery"

definition GetResultRules :: "config \<Rightarrow> rule list" where
  "GetResultRules c = GetRules c DirectionResult"

section \<open>The rewriter\<close>

text \<open>Package \<open>rewriter\<close>: the \<open>Rewriter\<close> struct with its two rule tables,
  \<open>RewriteQuery\<close>, \<open>RewriteQueryURL\<close>, \<open>RewriteResultJSON\<close> and \<open>processJSONData\<close>.
  The line numbers below are those of its source file.\<close>

record rewriter =
  queryRules :: "rule list"
  resultRules :: "rule list"

definition New :: "config \<Rightarrow> rewriter" where
  "New cfg = \<lparr>queryRules = GetQueryRules cfg, resultRules = GetResultRules cfg\<rparr>"

text \<open>\<open>UpdateConfig\<close> assigns the two tables one after the other; run alone, it
  leaves the rewriter that \<open>New\<close> builds.\<close>

definition UpdateConfig :: "rewriter \<Rightarrow> config \<Rightarrow> rewriter" where
  "UpdateConfig r cfg =
     (let r1 = r\<lparr>queryRules := GetQueryRules cfg\<rparr>
      in r1\<lparr>resultRules := GetResultRules cfg\<rparr>)"

subsection \<open>The string functions of Go's \<open>strings\<close> package that the rewriter calls\<close>

definition HasPrefix :: "string \<Rightarrow> string \<Rightarrow> bool" where
  "HasPrefix s p \<longleftrightarrow> take (length p) s = p"

text \<open>\<open>strings.Index\<close>: the byte offset of the first occurrence, \<open>-1\<close> when
  there is none; \<open>strings.Contains s sub\<close> is \<open>Index s sub \<ge> 0\<close>.\<close>

fun indexOf :: "string \<Rightarrow> string \<Rightarrow> nat option" where
  "indexOf [] sub = (if sub = [] then Some 0 else None)"
| "indexOf (c # cs) sub =
     (if HasPrefix (c # cs) sub then Some 0 else map_option Suc (indexOf cs sub))"

definition Index :: "string \<Rightarrow> string \<Rightarrow> int" where
  "Index s sub = (case indexOf s sub of None \<Rightarrow> - 1 | Some i \<Rightarrow> int i)"

definition Contains :: "string \<Rightarrow> string \<Rightarrow> bool" where
  "Contains s sub \<longleftrightarrow> Index s sub \<ge> 0"

text \<open>\<open>strings.Split s ","\<close> and \<open>strings.Join parts ","\<close> for the one-byte
  separator the rewriter uses. Splitting the empty string gives one empty part.\<close>

fun Split :: "string \<Rightarrow> char \<Rightarrow> string list" where
  "Split [] sep = [ [] ]"
| "Split (c # cs) sep =
     (if c = sep then [] # Split cs sep
      else (case Split cs sep of [] \<Rightarrow> [ [c] ] | w # ws \<Rightarrow> (c # w) # ws))"

fun Join :: "string list \<Rightarrow> char \<Rightarrow> string" where
  "Join [] sep = []"
| "Join [w] sep = w"
| "Join (w # ws) sep = w @ sep # Join ws sep"

text \<open>
  \<open>strings.TrimSpace\<close> removes leading and trailing white space as Unicode defines
  it. On a byte string these are the UTF-8 encodings of the code points for which
  \<open>unicode.IsSpace\<close> holds: the six ASCII ones, U+0085, U+00A0, U+1680,
  U+2000 to U+200A, U+2028, U+2029, U+202F, U+205F and U+3000. A byte that does
  not start such an encoding stops the trimming.
\<close>

definition spaceEncodings :: "string list" where
  "spaceEncodings =
     [ [CHR 0x09], [CHR 0x0A], [CHR 0x0B], [CHR 0x0C], [CHR 0x0D], [CHR 0x20],
      [CHR 0xC2, CHR 0x85], [CHR 0xC2, CHR 0xA0],
      [CHR 0xE1, CHR 0x9A, CHR 0x80],
      [CHR 0xE2, CHR 0x80, CHR 0x80], [CHR 0xE2, CHR 0x80, CHR 0x81],
      [CHR 0xE2, CHR 0x80, CHR 0x82], [CHR 0xE2, CHR 0x80, CHR 0x83],
      [CHR 0xE2, CHR 0x80, CHR 0x84], [CHR 0xE2, CHR 0x80, CHR 0x85],
      [CHR 0xE2, CHR 0x80, CHR 0x86], [CHR 0xE2, CHR 0x80, CHR 0x87],
      [CHR 0xE2, CHR 0x80, CHR 0x88], [CHR 0xE2, CHR 0x80, CHR 0x89],
      [CHR 0xE2, CHR 0x80, CHR 0x8A],
      [CHR 0xE2, CHR 0x80, CHR 0xA8], [CHR 0xE2, CHR 0x80, CHR 0xA9],
      [CHR 0xE2, CHR 0x80, CHR 0xAF], [CHR 0xE2, CHR 0x81, CHR 0x9F],
      [CHR 0xE3, CHR 0x80, CHR 0x80]]"

text \<open>The width of the white-space rune that \<open>s\<close> starts with, \<open>0\<close> when it
  starts with none, for a given list of encodings.\<close>

fun runeWidth :: "string list \<Rightarrow> string \<Rightarrow> nat" where
  "runeWidth [] s = 0"
| "runeWidth (w # ws) s = (if w \<noteq> [] \<and> HasPrefix s w then length w else runeWidth ws s)"

function stripLeading :: "string list \<Rightarrow> string \<Rightarrow> string" where
  "stripLeading encs s =
     (if runeWidth encs s = 0 \<or> s = [] then s
      else stripLeading encs (drop (runeWidth encs s) s))"
  by pat_completeness auto
termination
  by (relation "measure (\<lambda>(encs, s). length s)") auto

declare stripLeading.simps [simp del]

definition TrimLeftSpace :: "string \<Rightarrow> string" where
  "TrimLeftSpace s = stripLeading spaceEncodings s"

definition TrimRightSpace :: "string \<Rightarrow> string" where
  "TrimRightSpace s = rev (stripLeading (map rev spaceEncodings) (rev s))"

definition TrimSpace :: "string \<Rightarrow> string" where
  "TrimSpace s = TrimRightSpace (TrimLeftSpace s)"

subsection \<open>\<open>RewriteQuery\<close>\<close>

text \<open>
  The pattern \<^verbatim>\<open>\{([^{}]*)\}\<close> with \<open>ReplaceAllStringFunc\<close>: matches are found
  left to right and do not overlap. At an opening brace the longest run of bytes other
  than braces follows; there is a match exactly when a closing brace ends that run.
  Otherwise the search goes on one byte further.
\<close>

definition notBrace :: "char \<Rightarrow> bool" where
  "notBrace c \<longleftrightarrow> c \<noteq> CHR ''{'' \<and> c \<noteq> CHR ''}''"

function ReplaceAllStringFunc :: "(string \<Rightarrow> string) \<Rightarrow> string \<Rightarrow> string" where
  "ReplaceAllStringFunc repl [] = []"
| "ReplaceAllStringFunc repl (c # cs) =
     (if c = CHR ''{'' then
        (case dropWhile notBrace cs of
           d # rest \<Rightarrow>
             if d = CHR ''}''
             then repl (c # takeWhile notBrace cs @ [d]) @ ReplaceAllStringFunc repl rest
             else c # ReplaceAllStringFunc repl cs
         | [] \<Rightarrow> c # ReplaceAllStringFunc repl cs)
      else c # ReplaceAllStringFunc repl cs)"
  by pat_completeness auto
termination
proof (relation "measure (\<lambda>(repl, s). length s)")
  show "wf (measure (\<lambda>(repl :: string \<Rightarrow> string, s :: string). length s))"
    by simp
next
  fix repl :: "string \<Rightarrow> string" and c d :: char and cs rest :: string
  assume "dropWhile notBrace cs = d # rest"
  then have "length (d # rest) \<le> length cs"
    using length_dropWhile_le [of notBrace cs] by simp
  then show "((repl, rest), (repl, c # cs)) \<in> measure (\<lambda>(repl, s). length s)"
    by simp
qed auto

text \<open>The test of lines 53 to 56: the fragment, trimmed, begins with the source label
  followed by one of the four operators.\<close>

definition ruleMatches :: "rule \<Rightarrow> string \<Rightarrow> bool" where
  "ruleMatches r part \<longleftrightarrow>
     HasPrefix (TrimSpace part) (SourceLabel r @ ''='') \<or>
     HasPrefix (TrimSpace part) (SourceLabel r @ ''=~'') \<or>
     HasPrefix (TrimSpace part) (SourceLabel r @ ''!='') \<or>
     HasPrefix (TrimSpace part) (SourceLabel r @ ''!~'')"

definition detectOperator :: "string \<Rightarrow> string" where
  "detectOperator part =
     (if Contains part ''=~'' then ''=~''
      else if Contains part ''!='' then ''!=''
      else if Contains part ''!~'' then ''!~''
      else ''='')"

text \<open>\<open>part[valueStart:]\<close> is in range whenever the branch is taken (lemma
  \<open>valueStart_in_range\<close> below), so the slice is \<open>drop\<close>.\<close>

definition valueStart :: "string \<Rightarrow> int" where
  "valueStart part = Index part (detectOperator part) + int (length (detectOperator part))"

definition rewritePart :: "rule \<Rightarrow> string \<Rightarrow> string" where
  "rewritePart r part =
     (let operator = detectOperator part;
          val = drop (nat (valueStart part)) part
      in TargetLabel r @ operator @ val)"

text \<open>The inner loop over the rules, left by \<open>break\<close> at the first rule that matches.\<close>

fun tryRules :: "rule list \<Rightarrow> string \<Rightarrow> string" where
  "tryRules [] part = part"
| "tryRules (r # rs) part =
     (if ruleMatches r part then rewritePart r part else tryRules rs part)"

definition rewriteMatch :: "rule list \<Rightarrow> string \<Rightarrow> string" where
  "rewriteMatch rules match =
     (let inner = butlast (tl match);
          parts = Split inner CHR '',''
      in ''{'' @ Join (map (tryRules rules) parts) CHR '','' @ ''}'')"

definition RewriteQuery :: "rewriter \<Rightarrow> string \<Rightarrow> string" where
  "RewriteQuery r query =
     (if length (queryRules r) = 0 then query
      else ReplaceAllStringFunc (rewriteMatch (queryRules r)) query)"

subsection \<open>The JSON tree and \<open>processJSONData\<close>\<close>

text \<open>
  What \<open>json.Unmarshal\<close> builds for an \<open>interface{}\<close>: \<open>nil\<close>, \<open>bool\<close>,
  \<open>float64\<close>, \<open>string\<close>, \<open>[]interface{}\<close> and \<open>map[string]interface{}\<close>. A Go
  map is kept as an association list that is read with \<open>map_of\<close> and written with
  \<open>AList.update\<close> and \<open>AList.delete\<close>; the order of its entries carries no meaning.
  A \<open>float64\<close> is kept as the decimal text \<open>json.Marshal\<close> prints for it. The trees
  \<open>json.Unmarshal\<close> builds share no nodes, so the in-place mutation of the source is
  a function from trees to trees.
\<close>

datatype json =
  JNull
| JBool bool
| JNumber string
| JString string
| JArray "json list"
| JObject "(string \<times> json) list"

text \<open>The body of the loop of lines 130 to 135, for one rule.\<close>

definition applyRule :: "(string \<times> json) list \<Rightarrow> rule \<Rightarrow> (string \<times> json) list" where
  "applyRule metric r =
     (case map_of metric (SourceLabel r) of
        Some val \<Rightarrow> AList.delete (SourceLabel r) (AList.update (TargetLabel r) val metric)
      | None \<Rightarrow> metric)"

definition rewriteLabels :: "rule list \<Rightarrow> (string \<times> json) list \<Rightarrow> (string \<times> json) list" where
  "rewriteLabels rules metric = foldl applyRule metric rules"

text \<open>Lines 128 to 136: when \<open>v["metric"]\<close> is a map it is rewritten in place, so the
  entry of \<open>v\<close> holds the rewritten label set afterwards.\<close>

definition rewriteMetric :: "rule list \<Rightarrow> (string \<times> json) list \<Rightarrow> (string \<times> json) list" where
  "rewriteMetric rules v =
     (case map_of v ''metric'' of
        Some (JObject metric) \<Rightarrow> AList.update ''metric'' (JObject (rewriteLabels rules metric)) v
      | _ \<Rightarrow> v)"

text \<open>The nesting depth of a tree, the measure of the recursion below.\<close>

fun maxList :: "nat list \<Rightarrow> nat" where
  "maxList [] = 0"
| "maxList (n # ns) = max n (maxList ns)"

fun height :: "json \<Rightarrow> nat" where
  "height (JArray xs) = Suc (maxList (map height xs))"
| "height (JObject v) = Suc (maxList (map (\<lambda>kv. height (snd kv)) v))"
| "height _ = 0"

lemma le_maxList: "n \<in> set ns \<Longrightarrow> n \<le> maxList ns"
  by (induction ns) auto

lemma maxList_le: "(\<And>n. n \<in> set ns \<Longrightarrow> n \<le> b) \<Longrightarrow> maxList ns \<le> b"
  by (induction ns) auto

lemma set_update_subset: "set (AList.update k x al) \<subseteq> insert (k, x) (set al)"
  by (induction al) auto

lemma set_delete_subset: "set (AList.delete k al) \<subseteq> set al"
  by (auto simp: AList.delete_eq)

lemma values_applyRule: "snd ` set (applyRule metric r) \<subseteq> snd ` set metric"
proof (cases "map_of metric (SourceLabel r)")
  case None
  then show ?thesis by (simp add: applyRule_def)
next
  case (Some val)
  then have "(SourceLabel r, val) \<in> set metric"
    by (rule map_of_SomeD)
  then have "val \<in> snd ` set metric"
    by force
  then have absorb: "insert val (snd ` set metric) = snd ` set metric"
    by (rule insert_absorb)
  have "set (applyRule metric r) \<subseteq> insert (TargetLabel r, val) (set metric)"
    using Some set_delete_subset set_update_subset
    by (fastforce simp: applyRule_def)
  then have "snd ` set (applyRule metric r) \<subseteq> snd ` insert (TargetLabel r, val) (set metric)"
    by (rule image_mono)
  then show ?thesis
    by (simp add: absorb)
qed

lemma values_rewriteLabels: "snd ` set (rewriteLabels rules metric) \<subseteq> snd ` set metric"
  unfolding rewriteLabels_def
proof (induction rules arbitrary: metric)
  case Nil
  show ?case by simp
next
  case (Cons r rules)
  have "snd ` set (foldl applyRule (applyRule metric r) rules) \<subseteq> snd ` set (applyRule metric r)"
    by (rule Cons.IH)
  with values_applyRule [of metric r] show ?case by auto
qed

lemma height_rewriteLabels: "height (JObject (rewriteLabels rules metric)) \<le> height (JObject metric)"
proof -
  have "maxList (map (\<lambda>kv. height (snd kv)) (rewriteLabels rules metric))
          \<le> maxList (map (\<lambda>kv. height (snd kv)) metric)"
  proof (rule maxList_le)
    fix n assume "n \<in> set (map (\<lambda>kv. height (snd kv)) (rewriteLabels rules metric))"
    then obtain x where "x \<in> snd ` set (rewriteLabels rules metric)" and n: "n = height x"
      by auto
    then have "x \<in> snd ` set metric"
      using values_rewriteLabels by blast
    then have "height x \<in> set (map (\<lambda>kv. height (snd kv)) metric)"
      by auto
    then show "n \<le> maxList (map (\<lambda>kv. height (snd kv)) metric)"
      unfolding n by (rule le_maxList)
  qed
  then show ?thesis by simp
qed

lemma height_field:
  assumes "kv \<in> set v"
  shows "height (snd kv) < height (JObject v)"
proof -
  have "height (snd kv) \<in> set (map (\<lambda>kv. height (snd kv)) v)"
    using assms by auto
  then have "height (snd kv) \<le> maxList (map (\<lambda>kv. height (snd kv)) v)"
    by (rule le_maxList)
  then show ?thesis by simp
qed

lemma height_item:
  assumes "x \<in> set xs"
  shows "height x < height (JArray xs)"
proof -
  have "height x \<in> set (map height xs)"
    using assms by simp
  then have "height x \<le> maxList (map height xs)"
    by (rule le_maxList)
  then show ?thesis by simp
qed

lemma height_rewriteMetric:
  assumes "kv \<in> set (rewriteMetric rules v)"
  shows "height (snd kv) < height (JObject v)"
proof (cases "\<exists>metric. map_of v ''metric'' = Some (JObject metric)")
  case False
  then have "rewriteMetric rules v = v"
    by (auto simp: rewriteMetric_def split: option.splits json.splits)
  with assms have "kv \<in> set v" by simp
  then show ?thesis by (rule height_field)
next
  case True
  then obtain metric where m: "map_of v ''metric'' = Some (JObject metric)"
    by blast
  then have "(''metric'', JObject metric) \<in> set v"
    by (rule map_of_SomeD)
  then have old: "height (JObject metric) < height (JObject v)"
    using height_field by fastforce
  from m have "rewriteMetric rules v = AList.update ''metric'' (JObject (rewriteLabels rules metric)) v"
    by (simp add: rewriteMetric_def)
  with assms set_update_subset
  have "kv = (''metric'', JObject (rewriteLabels rules metric)) \<or> kv \<in> set v"
    by fastforce
  then show ?thesis
  proof
    assume "kv = (''metric'', JObject (rewriteLabels rules metric))"
    then show ?thesis
      using old height_rewriteLabels [of rules metric] by simp
  next
    assume "kv \<in> set v"
    then show ?thesis by (rule height_field)
  qed
qed

text \<open>
  \<open>processJSONData\<close>: a map has its \<open>metric\<close> label set rewritten first and is then
  walked field by field, the rewritten label set included; an array is walked item by
  item; anything else is left alone.
\<close>

function processJSONData :: "rule list \<Rightarrow> json \<Rightarrow> json" where
  "processJSONData rules (JObject v) =
     JObject (map (\<lambda>kv. (fst kv, processJSONData rules (snd kv))) (rewriteMetric rules v))"
| "processJSONData rules (JArray xs) = JArray (map (processJSONData rules) xs)"
| "processJSONData rules JNull = JNull"
| "processJSONData rules (JBool b) = JBool b"
| "processJSONData rules (JNumber n) = JNumber n"
| "processJSONData rules (JString s) = JString s"
  by pat_completeness auto
termination
proof (relation "measure (\<lambda>(rules, j). height j)")
  show "wf (measure (\<lambda>(rules :: rule list, j). height j))"
    by simp
next
  fix rules :: "rule list" and v :: "(string \<times> json) list" and kv :: "string \<times> json"
  assume "kv \<in> set (rewriteMetric rules v)"
  then have "height (snd kv) < height (JObject v)"
    by (rule height_rewriteMetric)
  then show "((rules, snd kv), (rules, JObject v)) \<in> measure (\<lambda>(rules, j). height j)"
    by simp
next
  fix rules :: "rule list" and xs :: "json list" and x :: json
  assume "x \<in> set xs"
  then have "height x < height (JArray xs)"
    by (rule height_item)
  then show "((rules, x), (rules, JArray xs)) \<in> measure (\<lambda>(rules, j). height j)"
    by simp
qed

subsection \<open>The standard library behind the rewriter and the proxy\<close>

text \<open>
  \<open>encoding/json\<close>, \<open>compress/gzip\<close> and \<open>net/url\<close> are not code of this repository.
  The program is modelled over a record of the library functions it calls, each with its
  error result as a value, so that every theorem below holds for whatever these
  functions compute.
\<close>

datatype error =
  SyntaxError
| UnmarshalTypeError
| MarshalError
| ReadError
| GzipError
| EscapeError
| Unsupported

type_synonym Values = "(string \<times> string list) list"

record stdlib =
  jsonDecode :: "string \<Rightarrow> error + json"
  jsonMarshal :: "json \<Rightarrow> error + string"
  gzipDecompress :: "string \<Rightarrow> error + string"
  gzipCompress :: "string \<Rightarrow> error + string"
  urlParseQuery :: "string \<Rightarrow> Values \<times> error option"
  valuesEncode :: "Values \<Rightarrow> string"

text \<open>
  \<open>json.Unmarshal(jsonData, &data)\<close> for \<open>data\<close> of type
  \<open>map[string]interface{}\<close>: a document that does not parse is an error; an object
  fills the map; \<open>null\<close> leaves the map \<open>nil\<close> and is no error; any other value is
  an \<open>UnmarshalTypeError\<close>. The \<open>nil\<close> map is \<open>JNull\<close>: it has no field, the walk
  finds nothing in it, and \<open>json.Marshal\<close> prints it as \<open>null\<close>.
\<close>

definition unmarshalMap :: "stdlib \<Rightarrow> string \<Rightarrow> error + json" where
  "unmarshalMap L jsonData =
     (case jsonDecode L jsonData of
        Inl err \<Rightarrow> Inl err
      | Inr (JObject m) \<Rightarrow> Inr (JObject m)
      | Inr JNull \<Rightarrow> Inr JNull
      | Inr _ \<Rightarrow> Inl UnmarshalTypeError)"

definition RewriteResultJSON :: "stdlib \<Rightarrow> rewriter \<Rightarrow> string \<Rightarrow> string" where
  "RewriteResultJSON L r jsonData =
     (if length (resultRules r) = 0 then jsonData
      else
        (case unmarshalMap L jsonData of
           Inl err \<Rightarrow> jsonData
         | Inr data \<Rightarrow>
             (case jsonMarshal L (processJSONData (resultRules r) data) of
                Inl err \<Rightarrow> jsonData
              | Inr result \<Rightarrow> result)))"

subsection \<open>\<open>RewriteQueryURL\<close>\<close>

record url =
  Scheme :: string
  Host :: string
  Path :: string
  RawQuery :: string

text \<open>\<open>queryURL.Query()\<close> is \<open>url.ParseQuery\<close> with its error dropped.\<close>

definition rewriteParam :: "rewriter \<Rightarrow> Values \<Rightarrow> string \<Rightarrow> Values" where
  "rewriteParam r query param =
     (case map_of query param of
        Some vals \<Rightarrow> AList.update param (map (RewriteQuery r) vals) query
      | None \<Rightarrow> query)"

definition RewriteQueryURL :: "stdlib \<Rightarrow> rewriter \<Rightarrow> url \<Rightarrow> url" where
  "RewriteQueryURL L r queryURL =
     (let query = fst (urlParseQuery L (RawQuery queryURL));
          query' = foldl (rewriteParam r) query [''query'', ''match[]'']
      in queryURL\<lparr>RawQuery := valuesEncode L query'\<rparr>)"

section \<open>The proxy\<close>

text \<open>
  \<^verbatim>\<open>internal/proxy/proxy.go\<close>. An \<open>http.Header\<close> maps a canonical key to its values;
  \<open>Get\<close> reads the first value or the empty string, \<open>Set\<close> leaves one value, \<open>Del\<close>
  removes the key. A body is a reader: the bytes it still holds, and the error it ends
  with when it does not end at EOF. \<open>ioutil.ReadAll\<close> drains it.
  \<open>ioutil.NopCloser(bytes.NewBuffer(b))\<close> is a fresh reader over \<open>b\<close>. The debug log is
  output only and is left out.
\<close>

type_synonym header = "string \<rightharpoonup> string list"

definition Get :: "header \<Rightarrow> string \<Rightarrow> string" where
  "Get h key = (case h key of Some (v # vs) \<Rightarrow> v | _ \<Rightarrow> [])"

definition Set :: "header \<Rightarrow> string \<Rightarrow> string \<Rightarrow> header" where
  "Set h key v = h(key \<mapsto> [v])"

definition Del :: "header \<Rightarrow> string \<Rightarrow> header" where
  "Del h key = h(key := None)"

datatype reader = Reader string "error option"

fun ReadAll :: "reader \<Rightarrow> (error + string) \<times> reader" where
  "ReadAll (Reader bs None) = (Inr bs, Reader [] None)"
| "ReadAll (Reader bs (Some err)) = (Inl err, Reader [] (Some err))"

definition NopCloser :: "string \<Rightarrow> reader" where
  "NopCloser b = Reader b None"

text \<open>\<open>strconv.Itoa\<close> of a length, which is never negative.\<close>

function Itoa :: "nat \<Rightarrow> string" where
  "Itoa n =
     (if n < 10 then [''0123456789'' ! n]
      else Itoa (n div 10) @ [''0123456789'' ! (n mod 10)])"
  by pat_completeness auto
termination
  by (relation "measure id") auto

declare Itoa.simps [simp del]

record response =
  Header :: header
  Body :: reader
  ContentLength :: int

record request =
  Method :: string
  URL :: url
  Header :: header
  Body :: "reader option"
  ContentLength :: int

record PrometheusProxy =
  targetURL :: url
  rewriter :: rewriter
  debug :: bool

text \<open>The loop of lines 115 to 123 over the fields of the form.\<close>

definition rewriteForm :: "rewriter \<Rightarrow> Values \<Rightarrow> Values" where
  "rewriteForm r form =
     map (\<lambda>(param, vals).
            if param = ''query'' \<or> param = ''match[]''
            then (param, map (RewriteQuery r) vals)
            else (param, vals)) form"

definition rewriteRequest :: "stdlib \<Rightarrow> PrometheusProxy \<Rightarrow> request \<Rightarrow> request" where
  "rewriteRequest L p req0 =
     (let req = req0\<lparr>URL := RewriteQueryURL L (rewriter p) (URL req0)\<rparr> in
      case request.Body req of
        None \<Rightarrow> req
      | Some rd \<Rightarrow>
          if Method req = ''POST'' then
            (let contentType = Get (request.Header req) ''Content-Type'' in
             if contentType = ''application/x-www-form-urlencoded'' then
               (case ReadAll rd of
                  (Inl err, rd') \<Rightarrow> req\<lparr>request.Body := Some rd'\<rparr>
                | (Inr body, rd') \<Rightarrow>
                    (case urlParseQuery L body of
                       (form, Some err) \<Rightarrow> req\<lparr>request.Body := Some rd'\<rparr>
                     | (form, None) \<Rightarrow>
                         (let newBody = valuesEncode L (rewriteForm (rewriter p) form);
                              contentLengthStr = Itoa (length newBody)
                          in req\<lparr>request.Body := Some (NopCloser newBody),
                                 request.ContentLength := int (length newBody),
                                 request.Header :=
                                   Set (request.Header req) ''Content-Length'' contentLengthStr\<rparr>)))
             else req)
          else req)"

text \<open>
  \<open>rewriteResponse\<close> returns the response as it leaves it and the error it returns.
  \<open>gzipDecompress\<close> stands for \<open>gzip.NewReader\<close> followed by \<open>ioutil.ReadAll\<close>: the
  source treats the failure of either in the same way. \<open>gzipCompress\<close> stands for
  writing to a \<open>gzip.Writer\<close> over a buffer and closing it; its error is that of
  \<open>Write\<close>.
\<close>

definition rewriteResponse :: "stdlib \<Rightarrow> PrometheusProxy \<Rightarrow> response \<Rightarrow> response \<times> error option" where
  "rewriteResponse L p resp =
     (let contentType = Get (response.Header resp) ''Content-Type'' in
      if \<not> Contains contentType ''application/json'' then (resp, None)
      else
        (let contentEncoding = Get (response.Header resp) ''Content-Encoding'' in
         case ReadAll (response.Body resp) of
           (Inl err, rd) \<Rightarrow> (resp\<lparr>response.Body := rd\<rparr>, Some err)
         | (Inr body, rd) \<Rightarrow>
             (case (if contentEncoding = ''gzip'' then gzipDecompress L body else Inr body) of
                Inl err \<Rightarrow> (resp\<lparr>response.Body := NopCloser body\<rparr>, None)
              | Inr decompressedBody \<Rightarrow>
                  (let newBody = RewriteResultJSON L (rewriter p) decompressedBody;
                       (finalBody, hdr) =
                         (if contentEncoding = ''gzip'' then
                            (case gzipCompress L newBody of
                               Inl err \<Rightarrow> (newBody, Del (response.Header resp) ''Content-Encoding'')
                             | Inr buf \<Rightarrow> (buf, response.Header resp))
                          else (newBody, response.Header resp));
                       contentLengthStr = Itoa (length finalBody)
                   in (resp\<lparr>response.Body := NopCloser finalBody,
                             response.ContentLength := int (length finalBody),
                             response.Header := Set hdr ''Content-Length'' contentLengthStr\<rparr>,
                       None)))))"

section \<open>A model of the library functions\<close>

text \<open>
  The theorems about the program hold for every \<open>stdlib\<close>. To run the program on
  concrete bytes, the library is modelled here on a fragment of its inputs, and answers
  \<open>Unsupported\<close> outside that fragment rather than guess:
  \<^item> JSON documents built from \<open>null\<close>, \<open>true\<close>, \<open>false\<close>, strings of ASCII bytes
    with no other escapes than those \<open>json.Marshal\<close> writes for such bytes, integers of
    at most 15 digits without sign, fraction or exponent (which a \<open>float64\<close> holds
    exactly and \<open>json.Marshal\<close> prints unchanged), arrays and objects;
  \<open>json.Marshal\<close> writes the keys of a map in byte order and escapes the quote, the
  backslash and \<open>< > &\<close>;
  \<^item> query strings as \<open>url.ParseQuery\<close>, \<open>url.QueryEscape\<close> and \<open>Values.Encode\<close> treat
    them, with \<open>&\<close> as the only separator;
  \<^item> a stand-in for gzip that keeps the two magic bytes of the format and stores the
    payload after them.
\<close>

definition isWS :: "char \<Rightarrow> bool" where
  "isWS c \<longleftrightarrow> c = CHR 0x20 \<or> c = CHR 0x09 \<or> c = CHR 0x0A \<or> c = CHR 0x0D"

definition skipWS :: "string \<Rightarrow> string" where
  "skipWS s = dropWhile isWS s"

definition isDigit :: "char \<Rightarrow> bool" where
  "isDigit c \<longleftrightarrow> c \<in> set ''0123456789''"

text \<open>What follows a backslash inside a string: the escapes of the quote and of the
  backslash, and the three \<open>\u\<close> escapes that \<open>json.Marshal\<close> writes.\<close>

definition unescape :: "string \<Rightarrow> (char \<times> string) option" where
  "unescape cs =
     (if HasPrefix cs [CHR 0x22] then Some (CHR 0x22, drop 1 cs)
      else if HasPrefix cs [CHR 0x5C] then Some (CHR 0x5C, drop 1 cs)
      else if HasPrefix cs ''u003c'' then Some (CHR ''<'', drop 5 cs)
      else if HasPrefix cs ''u003e'' then Some (CHR ''>'', drop 5 cs)
      else if HasPrefix cs ''u0026'' then Some (CHR ''&'', drop 5 cs)
      else None)"

lemma unescape_shorter: "unescape cs = Some (ch, rest) \<Longrightarrow> length rest \<le> length cs"
  by (auto simp: unescape_def split: if_splits)

function scanString :: "string \<Rightarrow> string \<Rightarrow> error + string \<times> string" where
  "scanString acc [] = Inl SyntaxError"
| "scanString acc (c # cs) =
     (if c = CHR 0x22 then Inr (acc, cs)
      else if c = CHR 0x5C then
        (case unescape cs of
           None \<Rightarrow> Inl Unsupported
         | Some (ch, rest) \<Rightarrow> scanString (acc @ [ch]) rest)
      else if (of_char c :: nat) < 0x20 then Inl SyntaxError
      else if (of_char c :: nat) \<ge> 0x80 then Inl Unsupported
      else scanString (acc @ [c]) cs)"
  by pat_completeness auto
termination
proof (relation "measure (\<lambda>(acc, s). length s)")
  show "wf (measure (\<lambda>(acc :: string, s :: string). length s))"
    by simp
next
  fix acc :: string and c ch :: char and cs rest :: string and x :: "char \<times> string"
  assume "unescape cs = Some x" and "(ch, rest) = x"
  then have "unescape cs = Some (ch, rest)"
    by simp
  then have "length rest \<le> length cs"
    by (rule unescape_shorter)
  then show "((acc @ [ch], rest), (acc, c # cs)) \<in> measure (\<lambda>(acc, s). length s)"
    by simp
qed auto

definition scanNumber :: "string \<Rightarrow> error + json \<times> string" where
  "scanNumber s =
     (let digits = takeWhile isDigit s; rest = dropWhile isDigit s in
      if digits = [] then Inl SyntaxError
      else if rest \<noteq> [] \<and> hd rest \<in> set ''.eE'' then Inl Unsupported
      else if length digits > 1 \<and> hd digits = CHR ''0'' then Inl SyntaxError
      else if length digits > 15 then Inl Unsupported
      else Inr (JNumber digits, rest))"

fun parseValue :: "nat \<Rightarrow> string \<Rightarrow> error + json \<times> string"
  and parseItems :: "nat \<Rightarrow> json list \<Rightarrow> string \<Rightarrow> error + json \<times> string"
  and parseFields :: "nat \<Rightarrow> (string \<times> json) list \<Rightarrow> string \<Rightarrow> error + json \<times> string"
where
  "parseValue 0 s = Inl Unsupported"
| "parseValue (Suc n) s =
     (let t = skipWS s in
      if HasPrefix t ''null'' then Inr (JNull, drop 4 t)
      else if HasPrefix t ''true'' then Inr (JBool True, drop 4 t)
      else if HasPrefix t ''false'' then Inr (JBool False, drop 5 t)
      else
        (case t of
           [] \<Rightarrow> Inl SyntaxError
         | c # cs \<Rightarrow>
             if c = CHR 0x22 then
               (case scanString [] cs of
                  Inl err \<Rightarrow> Inl err
                | Inr (str, rest) \<Rightarrow> Inr (JString str, rest))
             else if c = CHR ''['' then
               (if HasPrefix (skipWS cs) '']'' then Inr (JArray [], drop 1 (skipWS cs))
                else parseItems n [] cs)
             else if c = CHR ''{'' then
               (if HasPrefix (skipWS cs) ''}'' then Inr (JObject [], drop 1 (skipWS cs))
                else parseFields n [] cs)
             else if isDigit c then scanNumber t
             else if c = CHR ''-'' then Inl Unsupported
             else Inl SyntaxError))"
| "parseItems 0 acc s = Inl Unsupported"
| "parseItems (Suc n) acc s =
     (case parseValue n s of
        Inl err \<Rightarrow> Inl err
      | Inr (v, rest) \<Rightarrow>
          (case skipWS rest of
             [] \<Rightarrow> Inl SyntaxError
           | d # ds \<Rightarrow>
               if d = CHR '','' then parseItems n (acc @ [v]) ds
               else if d = CHR '']'' then Inr (JArray (acc @ [v]), ds)
               else Inl SyntaxError))"
| "parseFields 0 acc s = Inl Unsupported"
| "parseFields (Suc n) acc s =
     (case skipWS s of
        [] \<Rightarrow> Inl SyntaxError
      | q # qs \<Rightarrow>
          if q \<noteq> CHR 0x22 then Inl SyntaxError
          else
            (case scanString [] qs of
               Inl err \<Rightarrow> Inl err
             | Inr (key, rest) \<Rightarrow>
                 (case skipWS rest of
                    [] \<Rightarrow> Inl SyntaxError
                  | col # cs \<Rightarrow>
                      if col \<noteq> CHR '':'' then Inl SyntaxError
                      else
                        (case parseValue n cs of
                           Inl err \<Rightarrow> Inl err
                         | Inr (v, rest') \<Rightarrow>
                             (case skipWS rest' of
                                [] \<Rightarrow> Inl SyntaxError
                              | d # ds \<Rightarrow>
                                  if d = CHR '','' then parseFields n (AList.update key v acc) ds
                                  else if d = CHR ''}'' then Inr (JObject (AList.update key v acc), ds)
                                  else Inl SyntaxError)))))"

definition decodeJSON :: "string \<Rightarrow> error + json" where
  "decodeJSON s =
     (case parseValue (Suc (2 * length s)) s of
        Inl err \<Rightarrow> Inl err
      | Inr (v, rest) \<Rightarrow> if skipWS rest = [] then Inr v else Inl SyntaxError)"

text \<open>The number texts of the fragment, the ones \<open>scanNumber\<close> reads.\<close>

definition canonicalNumber :: "string \<Rightarrow> bool" where
  "canonicalNumber n \<longleftrightarrow>
     n \<noteq> [] \<and> list_all isDigit n \<and> (length n = 1 \<or> hd n \<noteq> CHR ''0'') \<and> length n \<le> 15"

definition escapeByte :: "char \<Rightarrow> error + string" where
  "escapeByte c =
     (if c = CHR 0x22 then Inr [CHR 0x5C, CHR 0x22]
      else if c = CHR 0x5C then Inr [CHR 0x5C, CHR 0x5C]
      else if c = CHR ''<'' then Inr (CHR 0x5C # ''u003c'')
      else if c = CHR ''>'' then Inr (CHR 0x5C # ''u003e'')
      else if c = CHR ''&'' then Inr (CHR 0x5C # ''u0026'')
      else if (of_char c :: nat) < 0x20 \<or> (of_char c :: nat) \<ge> 0x80 then Inl Unsupported
      else Inr [c])"

fun collect :: "(error + 'a) list \<Rightarrow> error + 'a list" where
  "collect [] = Inr []"
| "collect (Inl err # xs) = Inl err"
| "collect (Inr x # xs) = (case collect xs of Inl err \<Rightarrow> Inl err | Inr ys \<Rightarrow> Inr (x # ys))"

definition marshalString :: "string \<Rightarrow> error + string" where
  "marshalString s =
     (case collect (map escapeByte s) of
        Inl err \<Rightarrow> Inl err
      | Inr ss \<Rightarrow> Inr (CHR 0x22 # concat ss @ [CHR 0x22]))"

fun bytesLe :: "string \<Rightarrow> string \<Rightarrow> bool" where
  "bytesLe [] t = True"
| "bytesLe (c # cs) [] = False"
| "bytesLe (c # cs) (d # ds) =
     ((of_char c :: nat) < of_char d \<or> (c = d \<and> bytesLe cs ds))"

fun insertByKey :: "string \<times> 'a \<Rightarrow> (string \<times> 'a) list \<Rightarrow> (string \<times> 'a) list" where
  "insertByKey kv [] = [kv]"
| "insertByKey kv (x # xs) =
     (if bytesLe (fst kv) (fst x) then kv # x # xs else x # insertByKey kv xs)"

definition sortByKey :: "(string \<times> 'a) list \<Rightarrow> (string \<times> 'a) list" where
  "sortByKey m = foldr insertByKey m []"

definition marshalField :: "string \<Rightarrow> error + string \<Rightarrow> error + string \<times> string" where
  "marshalField key enc =
     (case marshalString key of
        Inl err \<Rightarrow> Inl err
      | Inr k \<Rightarrow> (case enc of Inl err \<Rightarrow> Inl err | Inr v \<Rightarrow> Inr (key, k @ '':'' @ v)))"

fun marshalJSON :: "json \<Rightarrow> error + string" where
  "marshalJSON JNull = Inr ''null''"
| "marshalJSON (JBool b) = Inr (if b then ''true'' else ''false'')"
| "marshalJSON (JNumber n) = (if canonicalNumber n then Inr n else Inl Unsupported)"
| "marshalJSON (JString s) = marshalString s"
| "marshalJSON (JArray xs) =
     (case collect (map marshalJSON xs) of
        Inl err \<Rightarrow> Inl err
      | Inr ss \<Rightarrow> Inr (''['' @ Join ss CHR '','' @ '']''))"
| "marshalJSON (JObject m) =
     (case collect (map (\<lambda>kv. marshalField (fst kv) (marshalJSON (snd kv))) m) of
        Inl err \<Rightarrow> Inl err
      | Inr entries \<Rightarrow> Inr (''{'' @ Join (map snd (sortByKey entries)) CHR '','' @ ''}''))"

text \<open>\<open>url.QueryEscape\<close>, \<open>url.QueryUnescape\<close>, \<open>url.ParseQuery\<close> and
  \<open>Values.Encode\<close>.\<close>

definition unreserved :: "char \<Rightarrow> bool" where
  "unreserved c \<longleftrightarrow>
     c \<in> set ''abcdefghijklmnopqrstuvwxyzABCDEFGHIJKLMNOPQRSTUVWXYZ0123456789-_.~''"

definition hexByte :: "char \<Rightarrow> string" where
  "hexByte c =
     [CHR ''%'', ''0123456789ABCDEF'' ! (of_char c div 16), ''0123456789ABCDEF'' ! (of_char c mod 16)]"

definition QueryEscape :: "string \<Rightarrow> string" where
  "QueryEscape s =
     concat (map (\<lambda>c. if unreserved c then [c] else if c = CHR 0x20 then ''+'' else hexByte c) s)"

definition unhex :: "char \<Rightarrow> nat option" where
  "unhex c =
     (if c \<in> set ''0123456789'' then Some (of_char c - 48)
      else if c \<in> set ''abcdef'' then Some (of_char c - 87)
      else if c \<in> set ''ABCDEF'' then Some (of_char c - 55)
      else None)"

fun QueryUnescape :: "string \<Rightarrow> error + string" where
  "QueryUnescape [] = Inr []"
| "QueryUnescape (c # cs) =
     (if c = CHR ''%'' then
        (case cs of
           a # b # rest \<Rightarrow>
             (case (unhex a, unhex b) of
                (Some x, Some y) \<Rightarrow>
                  (case QueryUnescape rest of
                     Inl err \<Rightarrow> Inl err
                   | Inr t \<Rightarrow> Inr (char_of (16 * x + y) # t))
              | _ \<Rightarrow> Inl EscapeError)
         | _ \<Rightarrow> Inl EscapeError)
      else
        (case QueryUnescape cs of
           Inl err \<Rightarrow> Inl err
         | Inr t \<Rightarrow> Inr ((if c = CHR ''+'' then CHR 0x20 else c) # t)))"

definition appendValue :: "Values \<Rightarrow> string \<Rightarrow> string \<Rightarrow> Values" where
  "appendValue m key v =
     AList.update key ((case map_of m key of None \<Rightarrow> [] | Some vs \<Rightarrow> vs) @ [v]) m"

fun parseQuery :: "Values \<times> error option \<Rightarrow> string list \<Rightarrow> Values \<times> error option" where
  "parseQuery (m, err) [] = (m, err)"
| "parseQuery (m, err) (seg # segs) =
     (if CHR '';'' \<in> set seg then parseQuery (m, Some EscapeError) segs
      else if seg = [] then parseQuery (m, err) segs
      else
        (let key = takeWhile (\<lambda>c. c \<noteq> CHR ''='') seg;
             val = drop 1 (dropWhile (\<lambda>c. c \<noteq> CHR ''='') seg)
         in case QueryUnescape key of
              Inl err1 \<Rightarrow> parseQuery (m, if err = None then Some err1 else err) segs
            | Inr key' \<Rightarrow>
                (case QueryUnescape val of
                   Inl err1 \<Rightarrow> parseQuery (m, if err = None then Some err1 else err) segs
                 | Inr val' \<Rightarrow> parseQuery (appendValue m key' val', err) segs)))"

definition ParseQuery :: "string \<Rightarrow> Values \<times> error option" where
  "ParseQuery query = parseQuery ([], None) (Split query CHR ''&'')"

definition Encode :: "Values \<Rightarrow> string" where
  "Encode v =
     Join (concat (map (\<lambda>(k, vs). map (\<lambda>x. QueryEscape k @ ''='' @ QueryEscape x) vs)
                       (sortByKey v))) CHR ''&''"

definition gzipMagic :: string where
  "gzipMagic = [CHR 0x1F, CHR 0x8B]"

definition storedDecompress :: "string \<Rightarrow> error + string" where
  "storedDecompress b = (if HasPrefix b gzipMagic then Inr (drop 2 b) else Inl GzipError)"

definition storedCompress :: "string \<Rightarrow> error + string" where
  "storedCompress b = Inr (gzipMagic @ b)"

definition modelLib :: stdlib where
  "modelLib =
     \<lparr>jsonDecode = decodeJSON, jsonMarshal = marshalJSON,
      gzipDecompress = storedDecompress, gzipCompress = storedCompress,
      urlParseQuery = ParseQuery, valuesEncode = Encode\<rparr>"

section \<open>Notions of the specification\<close>




text \<open>The values \<open>json.Unmarshal\<close> refuses for a map: every value but an object and
  \<open>null\<close>.\<close>

fun refusedForMap :: "json \<Rightarrow> bool" where
  "refusedForMap (JObject m) = False"
| "refusedForMap JNull = False"
| "refusedForMap _ = True"

text \<open>
  The framing the specification asks for: the \<open>ContentLength\<close> field and the
  \<open>Content-Length\<close> header both give the number of bytes the body holds.
\<close>

fun pending :: "reader \<Rightarrow> string" where
  "pending (Reader bs err) = bs"

definition framed :: "header \<Rightarrow> int \<Rightarrow> reader \<Rightarrow> bool" where
  "framed h cl rd \<longleftrightarrow>
     cl = int (length (pending rd)) \<and> Get h ''Content-Length'' = Itoa (length (pending rd))"

definition framedResponse :: "response \<Rightarrow> bool" where
  "framedResponse resp \<longleftrightarrow>
     framed (response.Header resp) (response.ContentLength resp) (response.Body resp)"

definition framedRequest :: "request \<Rightarrow> bool" where
  "framedRequest req \<longleftrightarrow>
     (case request.Body req of
        None \<Rightarrow> False
      | Some rd \<Rightarrow> framed (request.Header req) (request.ContentLength req) rd)"

text \<open>The values the examples below run on.\<close>

definition hostRewriter :: rewriter where
  "hostRewriter =
     \<lparr>queryRules = [\<lparr>SourceLabel = ''instance'', TargetLabel = ''host''\<rparr>],
      resultRules = [\<lparr>SourceLabel = ''instance'', TargetLabel = ''host''\<rparr>]\<rparr>"

definition hostProxy :: PrometheusProxy where
  "hostProxy =
     \<lparr>targetURL = \<lparr>Scheme = ''http'', Host = ''localhost:9090'', Path = [], RawQuery = []\<rparr>,
      rewriter = hostRewriter, debug = False\<rparr>"

definition gzipResponse :: "string \<Rightarrow> response" where
  "gzipResponse body =
     \<lparr>response.Header =
        [''Content-Type'' \<mapsto> [''application/json''], ''Content-Encoding'' \<mapsto> [''gzip'']],
      response.Body = Reader body None, response.ContentLength = - 1\<rparr>"

definition formRequest :: "string \<Rightarrow> string \<Rightarrow> request" where
  "formRequest method contentType =
     \<lparr>Method = method,
      URL = \<lparr>Scheme = ''http'', Host = ''localhost:9090'', Path = ''/api/v1/query'',
             RawQuery = ''query=up{instance=\"a\"}''\<rparr>,
      request.Header = [''Content-Type'' \<mapsto> [contentType], ''Content-Length'' \<mapsto> [''23'']],
      request.Body = Some (Reader ''query=up{instance=\"a\"}'' None),
      request.ContentLength = 23\<rparr>"

text \<open>A label name of the query language has neither \<open>=\<close> nor \<open>!\<close> in it.\<close>

definition plainLabel :: "string \<Rightarrow> bool" where
  "plainLabel l \<longleftrightarrow> CHR ''='' \<notin> set l \<and> CHR ''!'' \<notin> set l"

text \<open>The rule tables of \<^verbatim>\<open>internal/rewriter/rewriter_test.go\<close>.\<close>

definition testRewriter :: rewriter where
  "testRewriter =
     \<lparr>queryRules = [\<lparr>SourceLabel = ''instance'', TargetLabel = ''host''\<rparr>,
                    \<lparr>SourceLabel = ''job'', TargetLabel = ''service''\<rparr>],
      resultRules = [\<lparr>SourceLabel = ''instance'', TargetLabel = ''host''\<rparr>,
                     \<lparr>SourceLabel = ''job'', TargetLabel = ''service''\<rparr>]\<rparr>"




text \<open>
  The resolved rule table of the specification: for a direction, the rules of every
  mapping with that direction or \<open>both\<close>, in mapping order and then in rule order.
\<close>

definition resolvedTable :: "config \<Rightarrow> direction \<Rightarrow> rule list" where
  "resolvedTable cfg d =
     concat (map Rules (filter (\<lambda>m. Direction m = d \<or> Direction m = DirectionBoth) (Mappings cfg)))"

text \<open>
  First match wins, as the specification words it for one fragment: the rules are
  trialled in table order, the first whose test the fragment passes is selected, and
  the fragment becomes target label, operator and value; a fragment that no rule
  matches is left as it is.
\<close>

definition firstMatch :: "rule list \<Rightarrow> string \<Rightarrow> string" where
  "firstMatch table frag =
     (case find (\<lambda>x. ruleMatches x frag) table of
        None \<Rightarrow> frag
      | Some x \<Rightarrow> TargetLabel x @ detectOperator frag @ drop (nat (valueStart frag)) frag)"

text \<open>Two configurations for the examples: one in which two rules of the query table
  have the source label \<open>instance\<close>, one in which a rule with the source label \<open>a!\<close>
  comes before two rules with the source label \<open>a\<close>.\<close>

definition sharedLabelConfig :: config where
  "sharedLabelConfig =
     \<lparr>TargetPrometheus = ''http://localhost:9090'',
      Mappings =
        [\<lparr>Direction = DirectionQuery,
          Rules = [\<lparr>SourceLabel = ''job'', TargetLabel = ''service''\<rparr>,
                   \<lparr>SourceLabel = ''instance'', TargetLabel = ''host''\<rparr>]\<rparr>,
         \<lparr>Direction = DirectionResult,
          Rules = [\<lparr>SourceLabel = ''instance'', TargetLabel = ''other''\<rparr>]\<rparr>,
         \<lparr>Direction = DirectionBoth,
          Rules = [\<lparr>SourceLabel = ''instance'', TargetLabel = ''node''\<rparr>]\<rparr>]\<rparr>"

definition otherLabelConfig :: config where
  "otherLabelConfig =
     \<lparr>TargetPrometheus = ''http://localhost:9090'',
      Mappings =
        [\<lparr>Direction = DirectionQuery,
          Rules = [\<lparr>SourceLabel = ''a!'', TargetLabel = ''z''\<rparr>,
                   \<lparr>SourceLabel = ''a'', TargetLabel = ''h''\<rparr>,
                   \<lparr>SourceLabel = ''a'', TargetLabel = ''n''\<rparr>]\<rparr>]\<rparr>"

section \<open>What the model of \<open>json.Marshal\<close> prints, the model of the decoder reads\<close>

lemma collect_Cons:
  "collect (x # xs) = Inr ys \<longleftrightarrow> (\<exists>y ys'. x = Inr y \<and> collect xs = Inr ys' \<and> ys = y # ys')"
  by (cases x; cases "collect xs") auto


lemma collect_map_Nil: "collect (map f xs) = Inr [] \<longleftrightarrow> xs = []"
  by (cases xs) (auto simp: collect_Cons)





subsection \<open>One step of \<open>parseValue\<close> for each kind of value\<close>














subsection \<open>Lists of values and of fields\<close>

lemma Join_Cons: "ss \<noteq> [] \<Longrightarrow> Join (s # ss) sep = s @ sep # Join ss sep"
  by (cases ss) simp_all

lemma Join_start: "Join ((c # cs) # ss) sep = c # Join (cs # ss) sep"
  by (cases ss) simp_all





subsection \<open>Every value\<close>

lemma set_insertByKey: "set (insertByKey kv xs) = insert kv (set xs)"
  by (induction xs) auto

lemma set_sortByKey: "set (sortByKey m) = set m"
  unfolding sortByKey_def by (induction m) (simp_all add: set_insertByKey)

lemma sortByKey_Nil: "sortByKey m = [] \<longleftrightarrow> m = []"
  using set_sortByKey [of m] by (metis set_empty)








section \<open>Query rewriting\<close>

lemma GetRules_loop_concat:
  "GetRules_loop ms d acc =
     acc @ concat (map Rules (filter (\<lambda>m. Direction m = d \<or> Direction m = DirectionBoth) ms))"
  by (induction ms arbitrary: acc) simp_all

lemma GetRules_resolved:
  "GetRules c d =
     concat (map Rules (filter (\<lambda>m. Direction m = d \<or> Direction m = DirectionBoth) (Mappings c)))"
  by (simp add: GetRules_def GetRules_loop_concat)

lemma UpdateConfig_New: "UpdateConfig r cfg = New cfg"
  by (simp add: UpdateConfig_def New_def)

lemma tryRules_skip:
  assumes "\<And>r. r \<in> set pre \<Longrightarrow> \<not> ruleMatches r part"
  shows "tryRules (pre @ rest) part = tryRules rest part"
  using assms by (induction pre) simp_all

subsection \<open>The slice \<open>part[valueStart:]\<close> never panics\<close>

lemma HasPrefix_iff: "HasPrefix s p \<longleftrightarrow> (\<exists>t. s = p @ t)"
proof
  assume "HasPrefix s p"
  then have "s = p @ drop (length p) s"
    by (metis HasPrefix_def append_take_drop_id)
  then show "\<exists>t. s = p @ t" ..
next
  assume "\<exists>t. s = p @ t"
  then show "HasPrefix s p"
    by (auto simp: HasPrefix_def)
qed

lemma HasPrefix_length: "HasPrefix s p \<Longrightarrow> length p \<le> length s"
  by (auto simp: HasPrefix_iff)

lemma indexOf_range: "indexOf s sub = Some i \<Longrightarrow> i + length sub \<le> length s"
proof (induction s arbitrary: i)
  case Nil
  then show ?case by (simp split: if_splits)
next
  case (Cons c cs)
  show ?case
  proof (cases "HasPrefix (c # cs) sub")
    case True
    with Cons.prems have "i = 0" by simp
    with True show ?thesis
      using HasPrefix_length by fastforce
  next
    case False
    with Cons.prems obtain j where "indexOf cs sub = Some j" and "i = Suc j"
      by auto
    with Cons.IH [of j] show ?thesis by simp
  qed
qed

lemma indexOf_occurs: "indexOf (a @ sub @ b) sub \<noteq> None"
proof (induction a)
  case Nil
  show ?case
    by (cases "sub @ b") (simp_all add: HasPrefix_iff, metis)
next
  case (Cons x a)
  then show ?case by simp
qed

lemma Contains_occurs: "Contains (a @ sub @ b) sub"
  using indexOf_occurs [of a sub b]
  by (auto simp: Contains_def Index_def split: option.splits)

lemma stripLeading_suffix: "\<exists>a. s = a @ stripLeading encs s"
proof (induction encs s rule: stripLeading.induct)
  case (1 encs s)
  show ?case
  proof (cases "runeWidth encs s = 0 \<or> s = []")
    case True
    then have "stripLeading encs s = s"
      by (simp add: stripLeading.simps)
    then show ?thesis by simp
  next
    case False
    then have eq: "stripLeading encs s = stripLeading encs (drop (runeWidth encs s) s)"
      by (subst stripLeading.simps) simp
    from False "1.IH" obtain a where
      "drop (runeWidth encs s) s = a @ stripLeading encs (drop (runeWidth encs s) s)"
      by blast
    then have "s = (take (runeWidth encs s) s @ a) @ stripLeading encs s"
      unfolding eq by (metis append.assoc append_take_drop_id)
    then show ?thesis ..
  qed
qed

lemma TrimSpace_inside: "\<exists>a b. s = a @ TrimSpace s @ b"
proof -
  obtain a where a: "s = a @ TrimLeftSpace s"
    using stripLeading_suffix [of s spaceEncodings] by (auto simp: TrimLeftSpace_def)
  obtain c where "rev (TrimLeftSpace s) = c @ stripLeading (map rev spaceEncodings) (rev (TrimLeftSpace s))"
    using stripLeading_suffix by blast
  then have "rev (rev (TrimLeftSpace s)) = rev (c @ rev (TrimSpace s))"
    by (simp add: TrimSpace_def TrimRightSpace_def)
  then have "TrimLeftSpace s = TrimSpace s @ rev c"
    by simp
  with a have "s = a @ TrimSpace s @ rev c"
    by simp
  then show ?thesis by blast
qed

lemma HasPrefix_TrimSpace_Contains:
  assumes "HasPrefix (TrimSpace part) (label @ operator)"
  shows "Contains part operator"
proof -
  from assms obtain t where "TrimSpace part = label @ operator @ t"
    by (auto simp: HasPrefix_iff)
  moreover obtain a b where "part = a @ TrimSpace part @ b"
    using TrimSpace_inside by blast
  ultimately have "part = (a @ label) @ operator @ (t @ b)"
    by simp
  then show ?thesis
    by (metis Contains_occurs)
qed

lemma ruleMatches_detectOperator:
  assumes "ruleMatches r part"
  shows "Contains part (detectOperator part)"
proof -
  from assms have "Contains part ''='' \<or> Contains part ''=~'' \<or> Contains part ''!='' \<or> Contains part ''!~''"
    unfolding ruleMatches_def using HasPrefix_TrimSpace_Contains by blast
  then show ?thesis
    by (auto simp: detectOperator_def)
qed

lemma valueStart_in_range:
  assumes "ruleMatches r part"
  shows "0 \<le> Index part (detectOperator part)"
    and "0 \<le> valueStart part"
    and "valueStart part \<le> int (length part)"
proof -
  from assms have "Contains part (detectOperator part)"
    by (rule ruleMatches_detectOperator)
  then obtain i where i: "indexOf part (detectOperator part) = Some i"
    by (auto simp: Contains_def Index_def split: option.splits)
  then have "i + length (detectOperator part) \<le> length part"
    by (rule indexOf_range)
  with i show "0 \<le> Index part (detectOperator part)"
    and "0 \<le> valueStart part"
    and "valueStart part \<le> int (length part)"
    by (simp_all add: valueStart_def Index_def)
qed

subsection \<open>Labels without operator bytes match a fragment one at a time\<close>

text \<open>Between plain labels the prefix test picks at most one, so the first rule that
  matches a fragment is the first rule of the table with that source label.\<close>

lemma ruleMatches_cases:
  assumes "ruleMatches r part"
  obtains c t where "TrimSpace part = SourceLabel r @ c # t" and "c = CHR ''='' \<or> c = CHR ''!''"
proof -
  from assms consider
      t where "TrimSpace part = (SourceLabel r @ ''='') @ t"
    | t where "TrimSpace part = (SourceLabel r @ ''=~'') @ t"
    | t where "TrimSpace part = (SourceLabel r @ ''!='') @ t"
    | t where "TrimSpace part = (SourceLabel r @ ''!~'') @ t"
    unfolding ruleMatches_def HasPrefix_iff by blast
  then show ?thesis
    by cases (auto intro: that)
qed

lemma plain_prefix_unique:
  assumes "l @ c # t = l' @ c' # t'"
    and "c \<notin> set l'" and "c' \<notin> set l"
  shows "l = l'"
  using assms
proof (induction l arbitrary: l')
  case Nil
  then show ?case by (cases l') auto
next
  case (Cons x l)
  then show ?case by (cases l') auto
qed

lemma ruleMatches_same_label:
  assumes "ruleMatches r part" and "ruleMatches r' part"
    and "plainLabel (SourceLabel r)" and "plainLabel (SourceLabel r')"
  shows "SourceLabel r = SourceLabel r'"
proof -
  from assms(1) obtain c t where
    1: "TrimSpace part = SourceLabel r @ c # t" and c: "c = CHR ''='' \<or> c = CHR ''!''"
    by (rule ruleMatches_cases)
  from assms(2) obtain c' t' where
    2: "TrimSpace part = SourceLabel r' @ c' # t'" and c': "c' = CHR ''='' \<or> c' = CHR ''!''"
    by (rule ruleMatches_cases)
  from 1 2 have "SourceLabel r @ c # t = SourceLabel r' @ c' # t'"
    by simp
  moreover from c assms(4) have "c \<notin> set (SourceLabel r')"
    by (auto simp: plainLabel_def)
  moreover from c' assms(3) have "c' \<notin> set (SourceLabel r)"
    by (auto simp: plainLabel_def)
  ultimately show ?thesis
    by (rule plain_prefix_unique)
qed

lemma tryRules_first_with_label:
  assumes "ruleMatches r1 part" and "plainLabel (SourceLabel r1)"
    and "\<And>r. r \<in> set pre \<Longrightarrow> plainLabel (SourceLabel r) \<and> SourceLabel r \<noteq> SourceLabel r1"
  shows "tryRules (pre @ r1 # post) part = rewritePart r1 part"
proof -
  have "\<not> ruleMatches r part" if "r \<in> set pre" for r
    using that assms ruleMatches_same_label by blast
  then have "tryRules (pre @ r1 # post) part = tryRules (r1 # post) part"
    by (rule tryRules_skip)
  with assms(1) show ?thesis by simp
qed

subsection \<open>\<open>RewriteQuery\<close> on a brace group\<close>

lemma Split_not_Nil: "Split s sep \<noteq> []"
  by (induction s) (auto split: list.splits)

lemma Join_Split: "Join (Split s sep) sep = s"
proof (induction s)
  case Nil
  show ?case by simp
next
  case (Cons c s)
  obtain w ws where w: "Split s sep = w # ws"
    using Split_not_Nil [of s sep] by (cases "Split s sep") auto
  show ?case
  proof (cases "c = sep")
    case True
    then have "Join (Split (c # s) sep) sep = [] @ sep # Join (Split s sep) sep"
      using Split_not_Nil [of s sep] by (simp add: Join_Cons)
    with Cons.IH True show ?thesis by simp
  next
    case False
    then have "Join (Split (c # s) sep) sep = c # Join (w # ws) sep"
      by (simp add: w Join_start)
    with Cons.IH w show ?thesis by simp
  qed
qed

lemma Split_single: "sep \<notin> set s \<Longrightarrow> Split s sep = [s]"
  by (induction s) auto

lemma Replace_before_group:
  assumes "CHR ''{'' \<notin> set head"
  shows "ReplaceAllStringFunc repl (head @ s) = head @ ReplaceAllStringFunc repl s"
  using assms by (induction head) auto

lemma dropWhile_open:
  assumes "CHR ''}'' \<notin> set head"
  shows "\<exists>rest. dropWhile notBrace (head @ CHR ''{'' # s) = CHR ''{'' # rest"
  using assms by (induction head) (auto simp: notBrace_def)

lemma Replace_open_braces:
  assumes "CHR ''}'' \<notin> set head"
  shows "ReplaceAllStringFunc repl (head @ CHR ''{'' # s)
           = head @ ReplaceAllStringFunc repl (CHR ''{'' # s)"
  using assms
proof (induction head)
  case Nil
  show ?case by simp
next
  case (Cons c head)
  then have ih: "ReplaceAllStringFunc repl (head @ CHR ''{'' # s)
                   = head @ ReplaceAllStringFunc repl (CHR ''{'' # s)"
    by simp
  from Cons.prems obtain rest where "dropWhile notBrace (head @ CHR ''{'' # s) = CHR ''{'' # rest"
    using dropWhile_open [of head s] by auto
  then have "ReplaceAllStringFunc repl (c # head @ CHR ''{'' # s)
               = c # ReplaceAllStringFunc repl (head @ CHR ''{'' # s)"
    by simp
  with ih show ?case by simp
qed

lemma Replace_group:
  assumes "\<forall>c \<in> set inner. notBrace c"
  shows "ReplaceAllStringFunc repl (CHR ''{'' # inner @ CHR ''}'' # rest)
           = repl (CHR ''{'' # inner @ ''}'') @ ReplaceAllStringFunc repl rest"
proof -
  have "dropWhile notBrace (inner @ CHR ''}'' # rest) = CHR ''}'' # rest"
    using assms by (simp add: dropWhile_append2 notBrace_def)
  moreover have "takeWhile notBrace (inner @ CHR ''}'' # rest) = inner"
    using assms by (simp add: takeWhile_append2 notBrace_def)
  ultimately show ?thesis by simp
qed

lemma tryRules_firstMatch: "tryRules table frag = firstMatch table frag"
  by (induction table) (simp_all add: firstMatch_def rewritePart_def Let_def)

lemma rewriteMatch_group:
  "rewriteMatch table (CHR ''{'' # inner @ ''}'')
     = ''{'' @ Join (map (firstMatch table) (Split inner CHR '','')) CHR '','' @ ''}''"
proof -
  have "butlast (tl (CHR ''{'' # inner @ ''}'')) = inner"
    by (simp add: butlast_append)
  moreover have "map (tryRules table) = map (firstMatch table)"
    by (simp add: tryRules_firstMatch fun_eq_iff)
  ultimately show ?thesis
    by (simp add: rewriteMatch_def)
qed

lemma queryRules_New: "queryRules (New cfg) = resolvedTable cfg DirectionQuery"
  by (simp add: New_def GetQueryRules_def GetRules_resolved resolvedTable_def)

lemma firstMatch_Nil: "map (firstMatch []) parts = parts"
  by (induction parts) (simp_all add: firstMatch_def)

lemma RewriteQuery_group:
  assumes "CHR ''{'' \<notin> set head \<or> CHR ''}'' \<notin> set head"
    and "\<forall>c \<in> set inner. notBrace c"
  shows "RewriteQuery rw (head @ ''{'' @ inner @ ''}'' @ rest)
           = head @ ''{'' @ Join (map (firstMatch (queryRules rw)) (Split inner CHR '','')) CHR '','' @ ''}''
               @ RewriteQuery rw rest"
proof (cases "queryRules rw = []")
  case True
  then show ?thesis
    by (simp add: RewriteQuery_def firstMatch_Nil Join_Split)
next
  case False
  let ?repl = "rewriteMatch (queryRules rw)"
  have "ReplaceAllStringFunc ?repl (head @ CHR ''{'' # inner @ CHR ''}'' # rest)
          = head @ ReplaceAllStringFunc ?repl (CHR ''{'' # inner @ CHR ''}'' # rest)"
    using assms(1) Replace_before_group Replace_open_braces by blast
  also have "\<dots> = head @ ?repl (CHR ''{'' # inner @ ''}'') @ ReplaceAllStringFunc ?repl rest"
    by (simp only: Replace_group [OF assms(2)])
  finally show ?thesis
    using False by (simp add: RewriteQuery_def rewriteMatch_group)
qed

subsection \<open>The claims about \<open>RewriteQuery\<close>\<close>

text \<open>
  Claim C2. The code does not keep the operator and the value of a matcher whose value
  contains the text of an operator: for the query \<open>up{instance="a=~b"}\<close> and the rule
  \<open>instance \<rightarrow> host\<close> it returns \<open>up{host=~b"}\<close>, where the claim asks for
  \<open>up{host="a=~b"}\<close>. The operator is looked for anywhere in the fragment
  (\<open>strings.Contains\<close>), not after the label.
\<close>

theorem RewriteQuery_operator_inside_value:
  "RewriteQuery
     \<lparr>queryRules = [\<lparr>SourceLabel = ''instance'', TargetLabel = ''host''\<rparr>], resultRules = []\<rparr>
     ''up{instance=\"a=~b\"}''
   = ''up{host=~b\"}''"
  by code_simp

text \<open>
  Claim C6, as the code has it. In every brace group of a query, each fragment is
  rewritten by the first rule of the resolved query table whose test it passes, and by
  no other; the rest of the query is rewritten in the same way. When the source labels
  up to a rule are plain and that rule is the first with its source label, a fragment it
  matches is rewritten with it, whatever rules follow it in the table, those with the
  same source label included; so is, for any labels, a fragment that the rule matches
  and no rule before it matches.
\<close>

theorem RewriteQuery_first_match_wins:
  assumes "CHR ''{'' \<notin> set head \<or> CHR ''}'' \<notin> set head"
    and "\<forall>c \<in> set inner. notBrace c"
  shows "RewriteQuery (New cfg) (head @ ''{'' @ inner @ ''}'' @ rest)
           = head @ ''{''
               @ Join (map (firstMatch (resolvedTable cfg DirectionQuery)) (Split inner CHR '','')) CHR '',''
               @ ''}'' @ RewriteQuery (New cfg) rest
         \<and> (resolvedTable cfg DirectionQuery = pre @ r1 # post \<longrightarrow>
              (\<forall>x \<in> set pre. plainLabel (SourceLabel x) \<and> SourceLabel x \<noteq> SourceLabel r1) \<longrightarrow>
              plainLabel (SourceLabel r1) \<longrightarrow>
              ruleMatches r1 inner \<longrightarrow>
              CHR '','' \<notin> set inner \<longrightarrow>
              RewriteQuery (New cfg) (head @ ''{'' @ inner @ ''}'')
                = head @ ''{'' @ TargetLabel r1 @ detectOperator inner
                    @ drop (nat (valueStart inner)) inner @ ''}'')
         \<and> (resolvedTable cfg DirectionQuery = pre @ r1 # post \<longrightarrow>
              (\<forall>x \<in> set pre. \<not> ruleMatches x inner) \<longrightarrow>
              ruleMatches r1 inner \<longrightarrow>
              CHR '','' \<notin> set inner \<longrightarrow>
              RewriteQuery (New cfg) (head @ ''{'' @ inner @ ''}'')
                = head @ ''{'' @ TargetLabel r1 @ detectOperator inner
                    @ drop (nat (valueStart inner)) inner @ ''}'')"
proof (intro conjI impI)
  show "RewriteQuery (New cfg) (head @ ''{'' @ inner @ ''}'' @ rest)
           = head @ ''{''
               @ Join (map (firstMatch (resolvedTable cfg DirectionQuery)) (Split inner CHR '','')) CHR '',''
               @ ''}'' @ RewriteQuery (New cfg) rest"
    using RewriteQuery_group [OF assms, of "New cfg" rest] by (simp add: queryRules_New)
next
  assume table: "resolvedTable cfg DirectionQuery = pre @ r1 # post"
    and pre: "\<forall>x \<in> set pre. plainLabel (SourceLabel x) \<and> SourceLabel x \<noteq> SourceLabel r1"
    and plain: "plainLabel (SourceLabel r1)"
    and m: "ruleMatches r1 inner"
    and single: "CHR '','' \<notin> set inner"
  have "tryRules (pre @ r1 # post) inner = rewritePart r1 inner"
    using m plain pre by (intro tryRules_first_with_label) auto
  then have fm: "firstMatch (queryRules (New cfg)) inner
                   = TargetLabel r1 @ detectOperator inner @ drop (nat (valueStart inner)) inner"
    by (simp add: tryRules_firstMatch queryRules_New table rewritePart_def Let_def)
  have "RewriteQuery (New cfg) [] = []"
    by (simp add: RewriteQuery_def)
  with RewriteQuery_group [OF assms, of "New cfg" "[]"] fm single
  show "RewriteQuery (New cfg) (head @ ''{'' @ inner @ ''}'')
          = head @ ''{'' @ TargetLabel r1 @ detectOperator inner
              @ drop (nat (valueStart inner)) inner @ ''}''"
    by (simp add: Split_single)
next
  assume table: "resolvedTable cfg DirectionQuery = pre @ r1 # post"
    and pre: "\<forall>x \<in> set pre. \<not> ruleMatches x inner"
    and m: "ruleMatches r1 inner"
    and single: "CHR '','' \<notin> set inner"
  have "tryRules (pre @ r1 # post) inner = tryRules (r1 # post) inner"
    using pre by (intro tryRules_skip) blast
  with m have fm: "firstMatch (queryRules (New cfg)) inner
                   = TargetLabel r1 @ detectOperator inner @ drop (nat (valueStart inner)) inner"
    by (simp add: tryRules_firstMatch [symmetric] queryRules_New table rewritePart_def Let_def)
  have "RewriteQuery (New cfg) [] = []"
    by (simp add: RewriteQuery_def)
  with RewriteQuery_group [OF assms, of "New cfg" "[]"] fm single
  show "RewriteQuery (New cfg) (head @ ''{'' @ inner @ ''}'')
          = head @ ''{'' @ TargetLabel r1 @ detectOperator inner
              @ drop (nat (valueStart inner)) inner @ ''}''"
    by (simp add: Split_single)
qed

theorem RewriteQuery_first_match_wins_witness:
  "CHR ''{'' \<notin> set ''up''
   \<and> list_all notBrace ''instance=\"a\"''
   \<and> resolvedTable sharedLabelConfig DirectionQuery
       = [\<lparr>SourceLabel = ''job'', TargetLabel = ''service''\<rparr>]
           @ \<lparr>SourceLabel = ''instance'', TargetLabel = ''host''\<rparr>
           # [\<lparr>SourceLabel = ''instance'', TargetLabel = ''node''\<rparr>]
   \<and> plainLabel ''job'' \<and> ''job'' \<noteq> ''instance'' \<and> plainLabel ''instance''
   \<and> ruleMatches \<lparr>SourceLabel = ''instance'', TargetLabel = ''host''\<rparr> ''instance=\"a\"''
   \<and> ruleMatches \<lparr>SourceLabel = ''instance'', TargetLabel = ''node''\<rparr> ''instance=\"a\"''
   \<and> \<not> ruleMatches \<lparr>SourceLabel = ''job'', TargetLabel = ''service''\<rparr> ''instance=\"a\"''
   \<and> CHR '','' \<notin> set ''instance=\"a\"''
   \<and> RewriteQuery (New sharedLabelConfig) ''up{instance=\"a\"}'' = ''up{host=\"a\"}''
   \<and> RewriteQuery (New sharedLabelConfig) ''up{job=\"b\",instance=\"a\"} or x{instance!=\"c\"}''
       = ''up{service=\"b\",host=\"a\"} or x{host!=\"c\"}''"
proof -
  let ?job = "\<lparr>SourceLabel = ''job'', TargetLabel = ''service''\<rparr>"
  let ?host = "\<lparr>SourceLabel = ''instance'', TargetLabel = ''host''\<rparr>"
  let ?node = "\<lparr>SourceLabel = ''instance'', TargetLabel = ''node''\<rparr>"
  let ?frag = "''instance=\"a\"''"
  have head: "CHR ''{'' \<notin> set ''up'' \<or> CHR ''}'' \<notin> set ''up''"
    by simp
  have inner: "\<forall>c \<in> set ?frag. notBrace c"
    by (simp add: notBrace_def)
  have table: "resolvedTable sharedLabelConfig DirectionQuery = [?job] @ ?host # [?node]"
    by code_simp
  have pre: "\<forall>x \<in> set [?job]. plainLabel (SourceLabel x) \<and> SourceLabel x \<noteq> SourceLabel ?host"
    by (simp add: plainLabel_def)
  have plain: "plainLabel (SourceLabel ?host)"
    by (simp add: plainLabel_def)
  have m: "ruleMatches ?host ?frag"
    by code_simp
  have m2: "ruleMatches ?node ?frag"
    by code_simp
  have nm: "\<not> ruleMatches ?job ?frag"
    by code_simp
  have single: "CHR '','' \<notin> set ?frag"
    by simp
  have val: "TargetLabel ?host @ detectOperator ?frag @ drop (nat (valueStart ?frag)) ?frag @ ''}''
               = ''host=\"a\"}''"
    by code_simp
  have "RewriteQuery (New sharedLabelConfig) (''up'' @ ''{'' @ ?frag @ ''}'')
          = ''up'' @ ''{'' @ TargetLabel ?host @ detectOperator ?frag
              @ drop (nat (valueStart ?frag)) ?frag @ ''}''"
    using RewriteQuery_first_match_wins [OF head inner, of sharedLabelConfig _ "[?job]" ?host "[?node]"]
      table pre plain m single by blast
  then have 1: "RewriteQuery (New sharedLabelConfig) ''up{instance=\"a\"}'' = ''up{host=\"a\"}''"
    unfolding val by simp
  have 2: "RewriteQuery (New sharedLabelConfig) ''up{job=\"b\",instance=\"a\"} or x{instance!=\"c\"}''
       = ''up{service=\"b\",host=\"a\"} or x{host!=\"c\"}''"
    by code_simp
  have "plainLabel ''job''" "''job'' \<noteq> ''instance''" "plainLabel ''instance''"
    by (simp_all add: plainLabel_def)
  with table m m2 nm 1 2 show ?thesis
    by (simp add: notBrace_def)
qed

text \<open>
  Claim C6 as it is written fails on a table in which a rule with another source label
  comes first and matches the fragment too. With the rules \<open>a! \<rightarrow> z\<close>, \<open>a \<rightarrow> h\<close>,
  \<open>a \<rightarrow> n\<close> and the fragment \<open>a!="x"\<close>, the two rules with the source label \<open>a\<close> match,
  and the fragment is rewritten with the rule before them: the output is \<open>z!="x"\<close>, not
  the \<open>h!="x"\<close> of the first rule with the shared label.
\<close>

theorem other_label_matches_first:
  "GetQueryRules otherLabelConfig
     = [\<lparr>SourceLabel = ''a!'', TargetLabel = ''z''\<rparr>,
        \<lparr>SourceLabel = ''a'', TargetLabel = ''h''\<rparr>,
        \<lparr>SourceLabel = ''a'', TargetLabel = ''n''\<rparr>]
   \<and> ruleMatches \<lparr>SourceLabel = ''a'', TargetLabel = ''h''\<rparr> ''a!=\"x\"''
   \<and> ruleMatches \<lparr>SourceLabel = ''a'', TargetLabel = ''n''\<rparr> ''a!=\"x\"''
   \<and> rewritePart \<lparr>SourceLabel = ''a'', TargetLabel = ''h''\<rparr> ''a!=\"x\"'' = ''h!=\"x\"''
   \<and> RewriteQuery (New otherLabelConfig) ''up{a!=\"x\"}'' = ''up{z!=\"x\"}''
   \<and> RewriteQuery (New otherLabelConfig) ''up{a!=\"x\"}'' \<noteq> ''up{h!=\"x\"}''"
  by code_simp

section \<open>Result rewriting\<close>









text \<open>
  Claim C4. A rule whose source label is its own target label does not leave the label
  set as it was: the value is stored under the label and the label is then deleted.
  For the rule \<open>instance \<rightarrow> instance\<close> the document \<open>{"metric":{"instance":"x"}}\<close>
  comes back as \<open>{"metric":{}}\<close>, on the tree and on the bytes.
\<close>

theorem self_rule_drops_label:
  "processJSONData [\<lparr>SourceLabel = ''instance'', TargetLabel = ''instance''\<rparr>]
     (JObject [(''metric'', JObject [(''instance'', JString ''x'')])])
     = JObject [(''metric'', JObject [])]
   \<and> RewriteResultJSON modelLib
       \<lparr>queryRules = [], resultRules = [\<lparr>SourceLabel = ''instance'', TargetLabel = ''instance''\<rparr>]\<rparr>
       ''{\"metric\":{\"instance\":\"x\"}}''
     = ''{\"metric\":{}}''"
  by code_simp





text \<open>
  Claim C10, as the code has it. A document that parses to an array, a string, a number
  or a boolean is refused for a map with an \<open>UnmarshalTypeError\<close>, and the input comes
  back unchanged. A document that parses to \<open>null\<close> is not refused: the map stays
  \<open>nil\<close>, and with a rule table that is not empty the output is what \<open>json.Marshal\<close>
  prints for it.
\<close>

theorem RewriteResultJSON_not_an_object:
  assumes "jsonDecode L b = Inr v"
  shows "(refusedForMap v \<longrightarrow>
            unmarshalMap L b = Inl UnmarshalTypeError \<and> RewriteResultJSON L r b = b)
         \<and> (v = JNull \<longrightarrow> unmarshalMap L b = Inr JNull
              \<and> (resultRules r \<noteq> [] \<longrightarrow> jsonMarshal L JNull = Inr out \<longrightarrow>
                   RewriteResultJSON L r b = out))"
  using assms
  by (cases v) (simp_all add: unmarshalMap_def RewriteResultJSON_def)

theorem RewriteResultJSON_not_an_object_witness:
  "jsonDecode modelLib ''[1,2]'' = Inr (JArray [JNumber ''1'', JNumber ''2''])
   \<and> refusedForMap (JArray [JNumber ''1'', JNumber ''2''])
   \<and> RewriteResultJSON modelLib
        \<lparr>queryRules = [], resultRules = [\<lparr>SourceLabel = ''instance'', TargetLabel = ''host''\<rparr>]\<rparr>
        ''[1,2]'' = ''[1,2]''
   \<and> jsonDecode modelLib ''null'' = Inr JNull
   \<and> resultRules \<lparr>queryRules = [], resultRules = [\<lparr>SourceLabel = ''instance'', TargetLabel = ''host''\<rparr>]\<rparr> \<noteq> []
   \<and> jsonMarshal modelLib JNull = Inr ''null''
   \<and> RewriteResultJSON modelLib
        \<lparr>queryRules = [], resultRules = [\<lparr>SourceLabel = ''instance'', TargetLabel = ''host''\<rparr>]\<rparr>
        ''null'' = ''null''"
proof -
  let ?r = "\<lparr>queryRules = [], resultRules = [\<lparr>SourceLabel = ''instance'', TargetLabel = ''host''\<rparr>]\<rparr>"
  have arr: "jsonDecode modelLib ''[1,2]'' = Inr (JArray [JNumber ''1'', JNumber ''2''])"
    by code_simp
  have refused: "refusedForMap (JArray [JNumber ''1'', JNumber ''2''])"
    by simp
  have null: "jsonDecode modelLib ''null'' = Inr JNull"
    by code_simp
  have rules: "resultRules ?r \<noteq> []"
    by simp
  have printed: "jsonMarshal modelLib JNull = Inr ''null''"
    by code_simp
  have 1: "RewriteResultJSON modelLib ?r ''[1,2]'' = ''[1,2]''"
    using RewriteResultJSON_not_an_object [OF arr, of ?r] refused by blast
  have 2: "RewriteResultJSON modelLib ?r ''null'' = ''null''"
    using RewriteResultJSON_not_an_object [OF null, of ?r "''null''"] rules printed by blast
  from arr refused 1 null rules printed 2 show ?thesis
    by blast
qed

text \<open>
  Claim C10 as it is written fails on a document that is \<open>null\<close> with white space
  before it: it is valid JSON, its top-level value is not an object, and the output is
  \<open>null\<close> without the white space, not the input.
\<close>

theorem null_document_not_returned:
  "jsonDecode modelLib '' null'' = Inr JNull
   \<and> RewriteResultJSON modelLib
        \<lparr>queryRules = [], resultRules = [\<lparr>SourceLabel = ''instance'', TargetLabel = ''host''\<rparr>]\<rparr>
        '' null'' = ''null''
   \<and> RewriteResultJSON modelLib
        \<lparr>queryRules = [], resultRules = [\<lparr>SourceLabel = ''instance'', TargetLabel = ''host''\<rparr>]\<rparr>
        '' null'' \<noteq> '' null''"
  by code_simp

section \<open>The proxy pipeline\<close>

lemma framed_Set:
  "framed (Set h ''Content-Length'' (Itoa (length b))) (int (length b)) (NopCloser b)"
  by (simp add: framed_def Set_def Get_def NopCloser_def)

text \<open>
  Claim C9. A request whose method is not \<open>POST\<close>, or whose \<open>Content-Type\<close> is not
  exactly \<open>application/x-www-form-urlencoded\<close>, leaves \<open>rewriteRequest\<close> with its body,
  its headers and its \<open>ContentLength\<close> as they were, and with its URL rewritten by
  \<open>RewriteQueryURL\<close>.
\<close>

theorem rewriteRequest_body_untouched:
  assumes "Method req \<noteq> ''POST'' \<or>
           Get (request.Header req) ''Content-Type'' \<noteq> ''application/x-www-form-urlencoded''"
  shows "rewriteRequest L p req = req\<lparr>URL := RewriteQueryURL L (rewriter p) (URL req)\<rparr>"
  using assms
  by (auto simp: rewriteRequest_def Let_def split: option.splits)

theorem rewriteRequest_body_untouched_witness:
  "Method (formRequest ''PUT'' ''application/x-www-form-urlencoded'') \<noteq> ''POST''
   \<and> request.Body (rewriteRequest modelLib hostProxy (formRequest ''PUT'' ''application/x-www-form-urlencoded''))
       = Some (Reader ''query=up{instance=\"a\"}'' None)
   \<and> RawQuery (URL (rewriteRequest modelLib hostProxy (formRequest ''PUT'' ''application/x-www-form-urlencoded'')))
       = ''query=up%7Bhost%3D%22a%22%7D''
   \<and> Get (request.Header (formRequest ''POST'' ''application/x-www-form-urlencoded; charset=utf-8''))
         ''Content-Type'' \<noteq> ''application/x-www-form-urlencoded''
   \<and> request.Body (rewriteRequest modelLib hostProxy
         (formRequest ''POST'' ''application/x-www-form-urlencoded; charset=utf-8''))
       = Some (Reader ''query=up{instance=\"a\"}'' None)
   \<and> RawQuery (URL (rewriteRequest modelLib hostProxy
         (formRequest ''POST'' ''application/x-www-form-urlencoded; charset=utf-8'')))
       = ''query=up%7Bhost%3D%22a%22%7D''"
proof -
  let ?put = "formRequest ''PUT'' ''application/x-www-form-urlencoded''"
  let ?post = "formRequest ''POST'' ''application/x-www-form-urlencoded; charset=utf-8''"
  have m: "Method ?put \<noteq> ''POST''"
    by (simp add: formRequest_def)
  have ct: "Get (request.Header ?post) ''Content-Type'' \<noteq> ''application/x-www-form-urlencoded''"
    by (simp add: formRequest_def Get_def)
  have put: "rewriteRequest modelLib hostProxy ?put
               = ?put\<lparr>URL := RewriteQueryURL modelLib (rewriter hostProxy) (URL ?put)\<rparr>"
    using rewriteRequest_body_untouched [of ?put modelLib hostProxy] m by blast
  have post: "rewriteRequest modelLib hostProxy ?post
               = ?post\<lparr>URL := RewriteQueryURL modelLib (rewriter hostProxy) (URL ?post)\<rparr>"
    using rewriteRequest_body_untouched [of ?post modelLib hostProxy] ct by blast
  have u: "RawQuery (RewriteQueryURL modelLib (rewriter hostProxy)
             \<lparr>Scheme = ''http'', Host = ''localhost:9090'', Path = ''/api/v1/query'',
              RawQuery = ''query=up{instance=\"a\"}''\<rparr>) = ''query=up%7Bhost%3D%22a%22%7D''"
    by code_simp
  from m ct u show ?thesis
    unfolding put post by (simp add: formRequest_def)
qed

text \<open>
  Claim C7. For a JSON response that declares \<open>gzip\<close> and decompresses, when
  compressing the rewritten bytes fails, the response leaves with the rewritten bytes,
  not compressed, as its body, without a \<open>Content-Encoding\<close> header, and with no error.
\<close>

theorem recompression_failure_drops_encoding:
  assumes "Contains (Get (response.Header resp) ''Content-Type'') ''application/json''"
    and "Get (response.Header resp) ''Content-Encoding'' = ''gzip''"
    and "ReadAll (response.Body resp) = (Inr body, rd)"
    and "gzipDecompress L body = Inr plain"
    and "gzipCompress L (RewriteResultJSON L (rewriter p) plain) = Inl err"
  shows "snd (rewriteResponse L p resp) = None
         \<and> response.Body (fst (rewriteResponse L p resp))
             = NopCloser (RewriteResultJSON L (rewriter p) plain)
         \<and> response.Header (fst (rewriteResponse L p resp)) ''Content-Encoding'' = None
         \<and> Get (response.Header (fst (rewriteResponse L p resp))) ''Content-Encoding'' = []
         \<and> framedResponse (fst (rewriteResponse L p resp))"
proof -
  let ?new = "RewriteResultJSON L (rewriter p) plain"
  have "rewriteResponse L p resp =
          (resp\<lparr>response.Body := NopCloser ?new,
                 response.ContentLength := int (length ?new),
                 response.Header :=
                   Set (Del (response.Header resp) ''Content-Encoding'') ''Content-Length''
                     (Itoa (length ?new))\<rparr>, None)"
    unfolding rewriteResponse_def Let_def
    by (simp only: assms if_True if_False simp_thms sum.case prod.case)
  then show ?thesis
    by (simp add: framedResponse_def framed_Set) (simp add: Set_def Del_def Get_def)
qed

theorem recompression_failure_drops_encoding_witness:
  "Contains (Get (response.Header (gzipResponse (gzipMagic @ ''{\"metric\":{\"instance\":\"x\"}}'')))
      ''Content-Type'') ''application/json''
   \<and> Get (response.Header (gzipResponse (gzipMagic @ ''{\"metric\":{\"instance\":\"x\"}}'')))
        ''Content-Encoding'' = ''gzip''
   \<and> gzipDecompress (modelLib\<lparr>gzipCompress := \<lambda>b. Inl GzipError\<rparr>)
        (gzipMagic @ ''{\"metric\":{\"instance\":\"x\"}}'') = Inr ''{\"metric\":{\"instance\":\"x\"}}''
   \<and> response.Body (fst (rewriteResponse (modelLib\<lparr>gzipCompress := \<lambda>b. Inl GzipError\<rparr>) hostProxy
         (gzipResponse (gzipMagic @ ''{\"metric\":{\"instance\":\"x\"}}''))))
       = Reader ''{\"metric\":{\"host\":\"x\"}}'' None
   \<and> Get (response.Header (fst (rewriteResponse (modelLib\<lparr>gzipCompress := \<lambda>b. Inl GzipError\<rparr>)
         hostProxy (gzipResponse (gzipMagic @ ''{\"metric\":{\"instance\":\"x\"}}'')))))
         ''Content-Encoding'' = []"
proof -
  let ?L = "modelLib\<lparr>gzipCompress := \<lambda>b. Inl GzipError\<rparr>"
  let ?doc = "''{\"metric\":{\"instance\":\"x\"}}''"
  let ?resp = "gzipResponse (gzipMagic @ ?doc)"
  have ct: "Contains (Get (response.Header ?resp) ''Content-Type'') ''application/json''"
    by code_simp
  have ce: "Get (response.Header ?resp) ''Content-Encoding'' = ''gzip''"
    by code_simp
  have rd: "ReadAll (response.Body ?resp) = (Inr (gzipMagic @ ?doc), Reader [] None)"
    by (simp add: gzipResponse_def)
  have dec: "gzipDecompress ?L (gzipMagic @ ?doc) = Inr ?doc"
    by code_simp
  have enc: "gzipCompress ?L (RewriteResultJSON ?L (rewriter hostProxy) ?doc) = Inl GzipError"
    by simp
  have new: "RewriteResultJSON ?L (rewriter hostProxy) ?doc = ''{\"metric\":{\"host\":\"x\"}}''"
    by code_simp
  from recompression_failure_drops_encoding [OF ct ce rd dec enc] ct ce dec
  show ?thesis
    by (simp add: new NopCloser_def)
qed

lemma rewriteResponse_grows:
  assumes "Contains (Get (response.Header resp) ''Content-Type'') ''application/json''"
    and "ReadAll (response.Body resp) = (Inr body, rd)"
    and "(if Get (response.Header resp) ''Content-Encoding'' = ''gzip''
          then gzipDecompress L body else Inr body) = Inr plain"
  shows "\<exists>final hdr. rewriteResponse L p resp =
           (resp\<lparr>response.Body := NopCloser final,
                  response.ContentLength := int (length final),
                  response.Header := Set hdr ''Content-Length'' (Itoa (length final))\<rparr>, None)"
proof -
  define choice where "choice =
    (if Get (response.Header resp) ''Content-Encoding'' = ''gzip'' then
       (case gzipCompress L (RewriteResultJSON L (rewriter p) plain) of
          Inl err \<Rightarrow> (RewriteResultJSON L (rewriter p) plain,
                      Del (response.Header resp) ''Content-Encoding'')
        | Inr buf \<Rightarrow> (buf, response.Header resp))
     else (RewriteResultJSON L (rewriter p) plain, response.Header resp))"
  have "rewriteResponse L p resp =
          (case choice of (finalBody, hdr) \<Rightarrow>
             (resp\<lparr>response.Body := NopCloser finalBody,
                    response.ContentLength := int (length finalBody),
                    response.Header := Set hdr ''Content-Length'' (Itoa (length finalBody))\<rparr>,
              None))"
    unfolding rewriteResponse_def Let_def choice_def
    by (simp only: assms if_True if_False simp_thms sum.case prod.case)
  then show ?thesis
    by (cases choice) auto
qed

text \<open>
  Claim C1, as the code has it. A JSON response whose body is read and, when it declares
  \<open>gzip\<close>, decompresses, leaves \<open>rewriteResponse\<close> framed: the \<open>ContentLength\<close>
  field and the \<open>Content-Length\<close> header are the length of the body it carries, whether
  compressing again succeeded or not. When decompression fails the body is restored and
  nothing else is touched. A \<open>POST\<close> request with the form content type whose body is
  read and parses as a form leaves \<open>rewriteRequest\<close> framed.
\<close>

theorem pipeline_content_length:
  "(Contains (Get (response.Header resp) ''Content-Type'') ''application/json'' \<longrightarrow>
      ReadAll (response.Body resp) = (Inr body, rd) \<longrightarrow>
      (if Get (response.Header resp) ''Content-Encoding'' = ''gzip''
       then gzipDecompress L body else Inr body) = Inr plain \<longrightarrow>
      snd (rewriteResponse L p resp) = None \<and> framedResponse (fst (rewriteResponse L p resp)))
   \<and> (Contains (Get (response.Header resp) ''Content-Type'') ''application/json'' \<longrightarrow>
      ReadAll (response.Body resp) = (Inr body, rd) \<longrightarrow>
      Get (response.Header resp) ''Content-Encoding'' = ''gzip'' \<longrightarrow>
      gzipDecompress L body = Inl err \<longrightarrow>
      rewriteResponse L p resp = (resp\<lparr>response.Body := NopCloser body\<rparr>, None))
   \<and> (Method req = ''POST'' \<longrightarrow>
      request.Body req = Some rd \<longrightarrow>
      Get (request.Header req) ''Content-Type'' = ''application/x-www-form-urlencoded'' \<longrightarrow>
      ReadAll rd = (Inr body, rd') \<longrightarrow>
      urlParseQuery L body = (form, None) \<longrightarrow>
      framedRequest (rewriteRequest L p req)
      \<and> request.Body (rewriteRequest L p req)
          = Some (NopCloser (valuesEncode L (rewriteForm (rewriter p) form))))"
proof (intro conjI impI)
  assume a: "Contains (Get (response.Header resp) ''Content-Type'') ''application/json''"
    "ReadAll (response.Body resp) = (Inr body, rd)"
    "(if Get (response.Header resp) ''Content-Encoding'' = ''gzip''
      then gzipDecompress L body else Inr body) = Inr plain"
  from rewriteResponse_grows [OF a, of p] obtain final hdr where
    eq: "rewriteResponse L p resp =
           (resp\<lparr>response.Body := NopCloser final,
                  response.ContentLength := int (length final),
                  response.Header := Set hdr ''Content-Length'' (Itoa (length final))\<rparr>, None)"
    by blast
  show "snd (rewriteResponse L p resp) = None"
    by (simp add: eq)
  show "framedResponse (fst (rewriteResponse L p resp))"
    by (simp add: eq framedResponse_def framed_Set)
next
  assume "Contains (Get (response.Header resp) ''Content-Type'') ''application/json''"
    and "ReadAll (response.Body resp) = (Inr body, rd)"
    and "Get (response.Header resp) ''Content-Encoding'' = ''gzip''"
    and "gzipDecompress L body = Inl err"
  then show "rewriteResponse L p resp = (resp\<lparr>response.Body := NopCloser body\<rparr>, None)"
    unfolding rewriteResponse_def Let_def
    by (simp only: if_True if_False simp_thms sum.case prod.case)
next
  assume b: "Method req = ''POST''" "request.Body req = Some rd"
    "Get (request.Header req) ''Content-Type'' = ''application/x-www-form-urlencoded''"
    "ReadAll rd = (Inr body, rd')" "urlParseQuery L body = (form, None)"
  let ?new = "valuesEncode L (rewriteForm (rewriter p) form)"
  have eq: "rewriteRequest L p req =
          req\<lparr>URL := RewriteQueryURL L (rewriter p) (URL req),
              request.Body := Some (NopCloser ?new),
              request.ContentLength := int (length ?new),
              request.Header := Set (request.Header req) ''Content-Length'' (Itoa (length ?new))\<rparr>"
    using b by (simp add: rewriteRequest_def Let_def)
  show "framedRequest (rewriteRequest L p req)"
    by (simp add: eq framedRequest_def framed_Set)
  show "request.Body (rewriteRequest L p req) = Some (NopCloser ?new)"
    by (simp add: eq)
qed

theorem pipeline_content_length_witness:
  "Contains (Get (response.Header (gzipResponse (gzipMagic @ ''{\"metric\":{\"instance\":\"x\"}}'')))
      ''Content-Type'') ''application/json''
   \<and> gzipDecompress modelLib (gzipMagic @ ''{\"metric\":{\"instance\":\"x\"}}'')
       = Inr ''{\"metric\":{\"instance\":\"x\"}}''
   \<and> framedResponse (fst (rewriteResponse modelLib hostProxy
         (gzipResponse (gzipMagic @ ''{\"metric\":{\"instance\":\"x\"}}''))))
   \<and> gzipDecompress modelLib ''xx'' = Inl GzipError
   \<and> rewriteResponse modelLib hostProxy (gzipResponse ''xx'')
       = ((gzipResponse ''xx'')\<lparr>response.Body := NopCloser ''xx''\<rparr>, None)
   \<and> urlParseQuery modelLib ''query=up{instance=\"a\"}''
       = ([(''query'', [''up{instance=\"a\"}''])], None)
   \<and> framedRequest (rewriteRequest modelLib hostProxy
         (formRequest ''POST'' ''application/x-www-form-urlencoded''))
   \<and> request.Body (rewriteRequest modelLib hostProxy
         (formRequest ''POST'' ''application/x-www-form-urlencoded''))
       = Some (Reader ''query=up%7Bhost%3D%22a%22%7D'' None)"
proof -
  let ?doc = "''{\"metric\":{\"instance\":\"x\"}}''"
  let ?resp = "gzipResponse (gzipMagic @ ?doc)"
  let ?bad = "gzipResponse ''xx''"
  let ?req = "formRequest ''POST'' ''application/x-www-form-urlencoded''"
  let ?form = "[(''query'', [''up{instance=\"a\"}''])]"
  have ct: "Contains (Get (response.Header ?resp) ''Content-Type'') ''application/json''"
    by code_simp
  have rd: "ReadAll (response.Body ?resp) = (Inr (gzipMagic @ ?doc), Reader [] None)"
    by (simp add: gzipResponse_def)
  have dec: "gzipDecompress modelLib (gzipMagic @ ?doc) = Inr ?doc"
    by code_simp
  have ce: "Get (response.Header ?resp) ''Content-Encoding'' = ''gzip''"
    by code_simp
  have dec': "(if Get (response.Header ?resp) ''Content-Encoding'' = ''gzip''
               then gzipDecompress modelLib (gzipMagic @ ?doc) else Inr (gzipMagic @ ?doc)) = Inr ?doc"
    using ce dec by simp
  have 1: "framedResponse (fst (rewriteResponse modelLib hostProxy ?resp))"
    using pipeline_content_length [where resp = ?resp and body = "gzipMagic @ ?doc"
        and rd = "Reader [] None" and L = modelLib and plain = ?doc and p = hostProxy]
      ct rd dec' by blast
  have ct2: "Contains (Get (response.Header ?bad) ''Content-Type'') ''application/json''"
    by code_simp
  have rd2: "ReadAll (response.Body ?bad) = (Inr ''xx'', Reader [] None)"
    by (simp add: gzipResponse_def)
  have ce2: "Get (response.Header ?bad) ''Content-Encoding'' = ''gzip''"
    by code_simp
  have bad: "gzipDecompress modelLib ''xx'' = Inl GzipError"
    by code_simp
  have 2: "rewriteResponse modelLib hostProxy ?bad = (?bad\<lparr>response.Body := NopCloser ''xx''\<rparr>, None)"
    using pipeline_content_length [where resp = ?bad and body = "''xx''"
        and rd = "Reader [] None" and L = modelLib and p = hostProxy and err = GzipError]
      ct2 rd2 ce2 bad by blast
  have m: "Method ?req = ''POST''"
    by (simp add: formRequest_def)
  have b: "request.Body ?req = Some (Reader ''query=up{instance=\"a\"}'' None)"
    by (simp add: formRequest_def)
  have fct: "Get (request.Header ?req) ''Content-Type'' = ''application/x-www-form-urlencoded''"
    by (simp add: formRequest_def Get_def)
  have frd: "ReadAll (Reader ''query=up{instance=\"a\"}'' None)
               = (Inr ''query=up{instance=\"a\"}'', Reader [] None)"
    by simp
  have parsed: "urlParseQuery modelLib ''query=up{instance=\"a\"}'' = (?form, None)"
    by code_simp
  have enc: "valuesEncode modelLib (rewriteForm (rewriter hostProxy) ?form)
               = ''query=up%7Bhost%3D%22a%22%7D''"
    by code_simp
  have 3: "framedRequest (rewriteRequest modelLib hostProxy ?req)
           \<and> request.Body (rewriteRequest modelLib hostProxy ?req)
               = Some (NopCloser (valuesEncode modelLib (rewriteForm (rewriter hostProxy) ?form)))"
    using pipeline_content_length [where L = modelLib and p = hostProxy and req = ?req
        and rd = "Reader ''query=up{instance=\"a\"}'' None" and body = "''query=up{instance=\"a\"}''"
        and rd' = "Reader [] None" and form = ?form]
      m b fct frd parsed by blast
  then have 4: "request.Body (rewriteRequest modelLib hostProxy ?req)
                  = Some (Reader ''query=up%7Bhost%3D%22a%22%7D'' None)"
    by (simp add: enc NopCloser_def)
  from ct dec 1 bad 2 parsed 3 4 show ?thesis
    by blast
qed

text \<open>
  Claim C1 as it is written fails on the path where decompression fails. A chunked
  response (no \<open>Content-Length\<close> header, \<open>ContentLength = -1\<close>) that declares \<open>gzip\<close>
  and whose two bytes are not gzip data leaves with those two bytes as its body, with
  \<open>ContentLength\<close> still \<open>-1\<close> and still without a \<open>Content-Length\<close> header.
\<close>

theorem decompression_failure_not_framed:
  "snd (rewriteResponse modelLib hostProxy (gzipResponse ''xx'')) = None
   \<and> response.Body (fst (rewriteResponse modelLib hostProxy (gzipResponse ''xx''))) = Reader ''xx'' None
   \<and> response.ContentLength (fst (rewriteResponse modelLib hostProxy (gzipResponse ''xx''))) = - 1
   \<and> response.ContentLength (fst (rewriteResponse modelLib hostProxy (gzipResponse ''xx'')))
        \<noteq> int (length ''xx'')
   \<and> response.Header (fst (rewriteResponse modelLib hostProxy (gzipResponse ''xx''))) ''Content-Length''
        = None
   \<and> \<not> framedResponse (fst (rewriteResponse modelLib hostProxy (gzipResponse ''xx'')))"
  by code_simp

section \<open>The tests of the repository, on the model\<close>

text \<open>\<^verbatim>\<open>internal/rewriter/rewriter_test.go\<close>: the inputs of \<open>TestRewriteQuery\<close>,
  \<open>TestRewriteQueryURL\<close> and \<open>TestRewriteResultJSON\<close> with the outputs the tests expect
  (for the JSON tests, the bytes \<open>json.Marshal\<close> prints for the expected map).\<close>

lemma test_New:
  "New \<lparr>TargetPrometheus = ''http://localhost:9090'',
        Mappings = [\<lparr>Direction = DirectionQuery, Rules = queryRules testRewriter\<rparr>,
                    \<lparr>Direction = DirectionResult, Rules = resultRules testRewriter\<rparr>]\<rparr>
     = testRewriter"
  by code_simp

lemma test_RewriteQuery:
  "RewriteQuery testRewriter ''up{instance=\"localhost:9090\"}'' = ''up{host=\"localhost:9090\"}''"
  "RewriteQuery testRewriter ''up{instance=\"localhost:9090\",job=\"prometheus\"}''
     = ''up{host=\"localhost:9090\",service=\"prometheus\"}''"
  "RewriteQuery testRewriter ''up{instance=~\"localhost.*\"}'' = ''up{host=~\"localhost.*\"}''"
  "RewriteQuery testRewriter ''up{instance!=\"localhost:9090\"}'' = ''up{host!=\"localhost:9090\"}''"
  "RewriteQuery testRewriter ''up{instance!~\"localhost.*\"}'' = ''up{host!~\"localhost.*\"}''"
  "RewriteQuery testRewriter ''up'' = ''up''"
  "RewriteQuery testRewriter ''up{foo=\"bar\"}'' = ''up{foo=\"bar\"}''"
  by code_simp+

lemma test_RewriteQueryURL:
  "RawQuery (RewriteQueryURL modelLib testRewriter
     \<lparr>Scheme = ''http'', Host = ''localhost:8080'', Path = ''/api/v1/query'',
      RawQuery = ''query=up{instance=\"localhost:9090\"}''\<rparr>)
     = ''query=up%7Bhost%3D%22localhost%3A9090%22%7D''"
  "RawQuery (RewriteQueryURL modelLib testRewriter
     \<lparr>Scheme = ''http'', Host = ''localhost:8080'', Path = ''/api/v1/series'',
      RawQuery = ''match[]=up{instance=\"localhost:9090\"}''\<rparr>)
     = ''match%5B%5D=up%7Bhost%3D%22localhost%3A9090%22%7D''"
  by code_simp+

lemma test_RewriteResultJSON:
  "RewriteResultJSON modelLib testRewriter ''{\"metric\":{\"instance\":\"localhost:9090\"}}''
     = ''{\"metric\":{\"host\":\"localhost:9090\"}}''"
  "RewriteResultJSON modelLib testRewriter
     ''{\"result\":[{\"metric\":{\"instance\":\"localhost:9090\"}},{\"metric\":{\"instance\":\"localhost:9091\"}}]}''
     = ''{\"result\":[{\"metric\":{\"host\":\"localhost:9090\"}},{\"metric\":{\"host\":\"localhost:9091\"}}]}''"
  "RewriteResultJSON modelLib testRewriter
     ''{\"status\":\"success\",\"data\":{\"resultType\":\"vector\",\"result\":[{\"metric\":{\"__name__\":\"up\",\"instance\":\"localhost:9090\",\"job\":\"prometheus\"},\"value\":[1677758935,\"1\"]}]}}''
     = ''{\"data\":{\"result\":[{\"metric\":{\"__name__\":\"up\",\"host\":\"localhost:9090\",\"service\":\"prometheus\"},\"value\":[1677758935,\"1\"]}],\"resultType\":\"vector\"},\"status\":\"success\"}''"
  by code_simp+

end
